theory Spec2Isabelle
  imports Main "HOL-Library.Word"
begin

unbundle bit_operations_syntax

section \<open>Data model\<close>

text \<open>
  A Node.js \<open>Buffer\<close> is a sequence of bytes.  JavaScript strings are modelled as
  \<open>string\<close>: lists of code units below 256, which covers every base-64 text, every
  error message of the modules and every Latin-1 password.  A string given as plaintext
  is modelled in full, as its sequence of 16-bit code units.
\<close>

type_synonym byte = "8 word"
type_synonym Buffer = "byte list"
type_synonym code_unit = "16 word"

text \<open>\<open>decryption/types.ts\<close>: the error codes and the values a function can throw.\<close>

datatype DecryptionErrorCode =
    WRONG_PASSWORD
  | INTEGRITY_CHECK_FAILED
  | INVALID_FORMAT
  | UNSUPPORTED_VERSION
  | MISSING_FIELDS
  | FILE_ERROR
  | UNKNOWN

text \<open>
  A thrown value is a plain \<open>Error\<close> (also \<open>TypeError\<close>, \<open>RangeError\<close>) with its message,
  a \<open>DecryptionError\<close> with message and code, or something that is not an \<open>Error\<close>.
\<close>

datatype thrown =
    JsError string
  | DecryptionError string DecryptionErrorCode
  | NonError

text \<open>\<open>EncryptedPayload\<close>: at run time a field may be \<open>undefined\<close>/\<open>null\<close> (\<open>None\<close>).\<close>

record EncryptedPayload =
  cipherText :: "string option"
  salt :: "string option"
  iv :: "string option"
  authTag :: "string option"
  version :: "int option"

record EncryptedPayloadRaw =
  raw_cipherBytes :: Buffer
  raw_salt :: Buffer
  raw_iv :: Buffer
  raw_authTag :: Buffer
  raw_version :: int

record EncryptionMetadata =
  md_salt :: string
  md_iv :: string
  md_authTag :: string
  md_originalFileName :: string
  md_mimeType :: string
  md_originalSize :: nat
  md_version :: int
  md_encryptedAt :: string

record DerivedKeyResult =
  dk_key :: Buffer
  dk_salt :: Buffer
  dk_iterations :: nat

record DecryptionResult =
  data :: Buffer
  verified :: bool

record DecryptFileResult =
  res_outputPath :: string
  res_originalFileName :: string
  res_mimeType :: string
  res_size :: nat
  res_verified :: bool

text \<open>\<open>EncryptBufferOptions\<close>: \<open>salt\<close> and \<open>iv\<close> are optional (for deterministic tests).\<close>

record EncryptBufferOptions =
  password :: string
  opt_salt :: "Buffer option"
  opt_iv :: "Buffer option"

text \<open>
  \<open>EncryptionInput\<close> = \<open>Buffer | ArrayBuffer | Uint8Array | string\<close>.  A \<open>Buffer\<close> and
  an \<open>ArrayBuffer\<close> are given by their bytes; a \<open>Uint8Array\<close> is a view, given by the
  bytes of its underlying \<open>buffer\<close>, its \<open>byteOffset\<close> and its \<open>byteLength\<close>.
\<close>

datatype EncryptionInput =
    InBuffer Buffer
  | InArrayBuffer Buffer
  | InUint8Array Buffer nat nat
  | InString "code_unit list"

subsection \<open>Constants (\<open>constants.ts\<close> of both modules)\<close>

definition AES_KEY_LENGTH_BYTES :: nat where "AES_KEY_LENGTH_BYTES = 256 div 8"
definition GCM_AUTH_TAG_LENGTH_BYTES :: nat where "GCM_AUTH_TAG_LENGTH_BYTES = 16"
definition PBKDF2_ITERATIONS :: nat where "PBKDF2_ITERATIONS = 150000"
definition PBKDF2_DIGEST :: string where "PBKDF2_DIGEST = ''sha256''"
definition SALT_LENGTH_BYTES :: nat where "SALT_LENGTH_BYTES = 16"
definition IV_LENGTH_BYTES :: nat where "IV_LENGTH_BYTES = 12"
definition ENCRYPTION_FORMAT_VERSION :: int where "ENCRYPTION_FORMAT_VERSION = 1"

lemmas constants_defs =
  AES_KEY_LENGTH_BYTES_def GCM_AUTH_TAG_LENGTH_BYTES_def PBKDF2_ITERATIONS_def
  PBKDF2_DIGEST_def SALT_LENGTH_BYTES_def IV_LENGTH_BYTES_def ENCRYPTION_FORMAT_VERSION_def

section \<open>Base-64 (\<open>utils.ts\<close>)\<close>

text \<open>
  \<open>toBase64\<close> is \<open>buf.toString("base64")\<close>: the standard alphabet with \<open>=\<close> padding,
  three bytes to four characters.
\<close>

definition b64char :: "nat \<Rightarrow> char" where
  "b64char n =
     (if n < 26 then char_of (65 + n)
      else if n < 52 then char_of (71 + n)
      else if n < 62 then char_of (n - 4)
      else if n = 62 then CHR ''+'' else CHR ''/'')"

fun toBase64 :: "Buffer \<Rightarrow> string" where
  "toBase64 (a # b # c # rest) =
     [b64char (unat a div 4),
      b64char (unat a mod 4 * 16 + unat b div 16),
      b64char (unat b mod 16 * 4 + unat c div 64),
      b64char (unat c mod 64)] @ toBase64 rest"
| "toBase64 [a, b] =
     [b64char (unat a div 4),
      b64char (unat a mod 4 * 16 + unat b div 16),
      b64char (unat b mod 16 * 4),
      CHR ''='']"
| "toBase64 [a] =
     [b64char (unat a div 4), b64char (unat a mod 4 * 16), CHR ''='', CHR ''='']"
| "toBase64 [] = []"

text \<open>
  \<open>fromBase64\<close> is \<open>Buffer.from(s, "base64")\<close>.  Node's decoder is lenient: it stops at
  the first \<open>=\<close>, skips every character outside the alphabet (the URL-safe \<open>-\<close> and
  \<open>_\<close> count as \<open>+\<close> and \<open>/\<close>), and turns each group of four sextets into three
  bytes; a final group of three gives two bytes, of two gives one, of one gives none.
\<close>

definition unbase64 :: "char \<Rightarrow> nat option" where
  "unbase64 ch =
     (let n = (of_char ch :: nat) in
      if 65 \<le> n \<and> n \<le> 90 then Some (n - 65)
      else if 97 \<le> n \<and> n \<le> 122 then Some (n - 71)
      else if 48 \<le> n \<and> n \<le> 57 then Some (n + 4)
      else if ch = CHR ''+'' \<or> ch = CHR ''-'' then Some 62
      else if ch = CHR ''/'' \<or> ch = CHR ''_'' then Some 63
      else None)"

fun decode_groups :: "nat list \<Rightarrow> Buffer" where
  "decode_groups (s0 # s1 # s2 # s3 # rest) =
     [of_nat (s0 * 4 + s1 div 16),
      of_nat (s1 mod 16 * 16 + s2 div 4),
      of_nat (s2 mod 4 * 64 + s3)] @ decode_groups rest"
| "decode_groups [s0, s1, s2] =
     [of_nat (s0 * 4 + s1 div 16), of_nat (s1 mod 16 * 16 + s2 div 4)]"
| "decode_groups [s0, s1] = [of_nat (s0 * 4 + s1 div 16)]"
| "decode_groups [s0] = []"
| "decode_groups [] = []"

definition fromBase64 :: "string \<Rightarrow> Buffer" where
  "fromBase64 s =
     decode_groups (List.map_filter unbase64 (takeWhile (\<lambda>ch. ch \<noteq> CHR ''='') s))"

text \<open>
  \<open>isValidBase64\<close>: the string is non-empty, matches \<open>/^[A-Za-z0-9+/]*={0,2}$/\<close> and its
  length is a multiple of four.  The regular expression is a run of alphabet characters
  followed by at most two \<open>=\<close> and nothing else.
\<close>

definition isBase64Alphabet :: "char \<Rightarrow> bool" where
  "isBase64Alphabet ch =
     (let n = (of_char ch :: nat) in
      (65 \<le> n \<and> n \<le> 90) \<or> (97 \<le> n \<and> n \<le> 122) \<or> (48 \<le> n \<and> n \<le> 57)
      \<or> ch = CHR ''+'' \<or> ch = CHR ''/'')"

definition base64Regex_test :: "string \<Rightarrow> bool" where
  "base64Regex_test str =
     (let rest = dropWhile isBase64Alphabet str
      in rest = [] \<or> rest = ''='' \<or> rest = ''=='')"

definition isValidBase64 :: "string \<Rightarrow> bool" where
  "isValidBase64 str =
     (if length str = 0 then False
      else base64Regex_test str \<and> length str mod 4 = 0)"

section \<open>Number formatting in messages\<close>

text \<open>
  A template literal prints an integer of magnitude below \<open>10^21\<close> in decimal, which is
  what \<open>show_int\<close> gives.  From \<open>10^21\<close> on JavaScript prints the exponent form
  (\<open>1e+21\<close>); for such a \<open>version\<close> the text of the message differs from the one below,
  the error code and the order of the checks do not.
\<close>

fun show_nat :: "nat \<Rightarrow> string" where
  "show_nat n =
     (if n < 10 then [char_of (48 + n)]
      else show_nat (n div 10) @ [char_of (48 + n mod 10)])"

declare show_nat.simps [simp del]

definition show_int :: "int \<Rightarrow> string" where
  "show_int i = (if i < 0 then CHR ''-'' # show_nat (nat (- i)) else show_nat (nat i))"

section \<open>Payload validation (\<open>decryption/utils.ts\<close>)\<close>

definition requiredFields :: "string list" where
  "requiredFields = [''cipherText'', ''salt'', ''iv'', ''authTag'', ''version'']"

text \<open>\<open>payload[field] === undefined || payload[field] === null\<close>\<close>

definition field_absent :: "EncryptedPayload \<Rightarrow> string \<Rightarrow> bool" where
  "field_absent payload field =
     (if field = ''cipherText'' then cipherText payload = None
      else if field = ''salt'' then salt payload = None
      else if field = ''iv'' then iv payload = None
      else if field = ''authTag'' then authTag payload = None
      else if field = ''version'' then version payload = None
      else True)"

text \<open>The \<open>for\<close> loop over \<open>requiredFields\<close>: the first absent field throws.\<close>

primrec check_required :: "EncryptedPayload \<Rightarrow> string list \<Rightarrow> thrown option" where
  "check_required payload [] = None"
| "check_required payload (field # rest) =
     (if field_absent payload field
      then Some (DecryptionError (''Missing required field: '' @ field) MISSING_FIELDS)
      else check_required payload rest)"

text \<open>
  \<open>validatePayload\<close> returns nothing or throws: \<open>None\<close> is a normal return, \<open>Some e\<close>
  is the thrown \<open>e\<close>.  After the loop every field is present; the \<open>None\<close> branches of
  the field reads below stand for the \<open>TypeError\<close> JavaScript would raise on
  \<open>undefined\<close> and are never reached.
\<close>

definition validatePayload :: "EncryptedPayload \<Rightarrow> thrown option" where
  "validatePayload payload =
     (case check_required payload requiredFields of
        Some e \<Rightarrow> Some e
      | None \<Rightarrow>
     (case (cipherText payload, salt payload, iv payload, authTag payload, version payload) of
        (Some ct, Some s, Some i, Some t, Some v) \<Rightarrow>
          if length ct > 0 \<and> \<not> isValidBase64 ct then
            Some (DecryptionError ''cipherText is not valid base-64'' INVALID_FORMAT)
          else if \<not> isValidBase64 s then
            Some (DecryptionError ''salt is not valid base-64'' INVALID_FORMAT)
          else if \<not> isValidBase64 i then
            Some (DecryptionError ''iv is not valid base-64'' INVALID_FORMAT)
          else if \<not> isValidBase64 t then
            Some (DecryptionError ''authTag is not valid base-64'' INVALID_FORMAT)
          else if length (fromBase64 s) \<noteq> SALT_LENGTH_BYTES then
            Some (DecryptionError
              (''Salt must be '' @ show_nat SALT_LENGTH_BYTES @ '' bytes, got ''
                 @ show_nat (length (fromBase64 s))) INVALID_FORMAT)
          else if length (fromBase64 i) \<noteq> IV_LENGTH_BYTES then
            Some (DecryptionError
              (''IV must be '' @ show_nat IV_LENGTH_BYTES @ '' bytes, got ''
                 @ show_nat (length (fromBase64 i))) INVALID_FORMAT)
          else if length (fromBase64 t) \<noteq> GCM_AUTH_TAG_LENGTH_BYTES then
            Some (DecryptionError
              (''Auth tag must be '' @ show_nat GCM_AUTH_TAG_LENGTH_BYTES @ '' bytes, got ''
                 @ show_nat (length (fromBase64 t))) INVALID_FORMAT)
          else if v \<noteq> ENCRYPTION_FORMAT_VERSION then
            Some (DecryptionError
              (''Unsupported encryption version: '' @ show_int v @ '' (expected ''
                 @ show_int ENCRYPTION_FORMAT_VERSION @ '')'') UNSUPPORTED_VERSION)
          else None
      | _ \<Rightarrow> Some (JsError ''TypeError'')))"

section \<open>Timing-safe comparison (\<open>utils.ts\<close> of both modules)\<close>

text \<open>
  Node's \<open>crypto.timingSafeEqual\<close> throws a \<open>RangeError\<close> when the lengths differ and
  otherwise compares in constant time: it ORs together the XOR of every pair of bytes.
\<close>

definition CRYPTO_memcmp :: "Buffer \<Rightarrow> Buffer \<Rightarrow> byte" where
  "CRYPTO_memcmp a b = fold (\<lambda>(x, y) acc. acc OR (x XOR y)) (zip a b) 0"

definition crypto_timingSafeEqual :: "Buffer \<Rightarrow> Buffer \<Rightarrow> thrown + bool" where
  "crypto_timingSafeEqual a b =
     (if length a \<noteq> length b
      then Inl (JsError ''Input buffers must have the same byte length'')
      else Inr (CRYPTO_memcmp a b = 0))"

definition timingSafeEqual :: "Buffer \<Rightarrow> Buffer \<Rightarrow> thrown + bool" where
  "timingSafeEqual a b =
     (if length a \<noteq> length b then Inr False else crypto_timingSafeEqual a b)"

section \<open>The environment: Node's \<open>crypto\<close> primitives, randomness, the key buffer\<close>

text \<open>
  The modules call Node's built-in \<open>crypto\<close>; its primitives are parameters of the model.
  \<^item> \<open>pbkdf2 password salt iterations keylen digest\<close> is \<open>crypto.pbkdf2\<close>: the derived
    key, or the error passed to the callback.
  \<^item> \<open>aes_gcm_encrypt key iv authTagLength plaintext\<close> stands for
    \<open>createCipheriv("aes-256-gcm", key, iv, {authTagLength})\<close>, \<open>update\<close>, \<open>final\<close> and
    \<open>getAuthTag\<close>: ciphertext and tag, or what one of the calls throws.
  \<^item> \<open>aes_gcm_decrypt key iv authTagLength authTag ciphertext\<close> stands for
    \<open>createDecipheriv\<close>, \<open>setAuthTag\<close>, \<open>update\<close> and \<open>final\<close>: the plaintext, or what one
    of the calls throws (\<open>final\<close> throws when the tag does not verify).
  \<^item> \<open>decipher_init key iv authTagLength authTag\<close> is what \<open>createDecipheriv\<close> followed by
    \<open>setAuthTag\<close> throws, if anything, when the decipher is set up for streaming.
\<close>

record crypto =
  pbkdf2 :: "string \<Rightarrow> Buffer \<Rightarrow> nat \<Rightarrow> nat \<Rightarrow> string \<Rightarrow> thrown + Buffer"
  aes_gcm_encrypt :: "Buffer \<Rightarrow> Buffer \<Rightarrow> nat \<Rightarrow> Buffer \<Rightarrow> thrown + Buffer \<times> Buffer"
  aes_gcm_decrypt :: "Buffer \<Rightarrow> Buffer \<Rightarrow> nat \<Rightarrow> Buffer \<Rightarrow> Buffer \<Rightarrow> thrown + Buffer"
  decipher_init :: "Buffer \<Rightarrow> Buffer \<Rightarrow> nat \<Rightarrow> Buffer \<Rightarrow> thrown option"

text \<open>A file-system entry, and the file system as a map from paths.\<close>

datatype node = File Buffer | Dir

type_synonym filesystem = "string \<rightharpoonup> node"

text \<open>
  The state the operations read and change:
  \<^item> \<open>entropy\<close>: the bytes \<open>crypto.randomBytes\<close> returns next;
  \<^item> \<open>deriveKey_calls\<close>: how often \<open>deriveKey\<close> has been entered (a call counter);
  \<^item> \<open>key_mem\<close>: the contents of the \<open>Buffer\<close> holding the derived key (\<open>None\<close> while no
    key has been derived);
  \<^item> \<open>files\<close>: the file system.
\<close>

record world =
  entropy :: "nat \<Rightarrow> byte"
  deriveKey_calls :: nat
  key_mem :: "Buffer option"
  files :: filesystem

definition randomBytes :: "nat \<Rightarrow> world \<Rightarrow> Buffer \<times> world" where
  "randomBytes n w = (map (entropy w) [0..<n], w\<lparr>entropy := (\<lambda>i. entropy w (i + n))\<rparr>)"

definition generateIV :: "nat \<Rightarrow> world \<Rightarrow> Buffer \<times> world" where
  "generateIV len w = randomBytes len w"

text \<open>\<open>secureWipe(buffer)\<close> and \<open>buffer.fill(0)\<close>: every byte becomes zero.\<close>

definition secureWipe :: "Buffer \<Rightarrow> Buffer" where
  "secureWipe buffer = replicate (length buffer) 0"

definition wipe_key :: "world \<Rightarrow> world" where
  "wipe_key w = w\<lparr>key_mem := map_option secureWipe (key_mem w)\<rparr>"

section \<open>Key derivation (\<open>key.ts\<close>)\<close>

text \<open>The encryption module's \<open>deriveKey(password, salt?)\<close>.\<close>

definition enc_deriveKey ::
  "crypto \<Rightarrow> string \<Rightarrow> Buffer option \<Rightarrow> world \<Rightarrow> (thrown + DerivedKeyResult) \<times> world" where
  "enc_deriveKey c pw salt_opt w =
     (let w0 = w\<lparr>deriveKey_calls := deriveKey_calls w + 1\<rparr> in
      if pw = [] then (Inl (JsError ''Password must not be empty.''), w0)
      else
        let (usedSalt, w1) =
              (case salt_opt of Some s \<Rightarrow> (s, w0) | None \<Rightarrow> randomBytes SALT_LENGTH_BYTES w0)
        in case pbkdf2 c pw usedSalt PBKDF2_ITERATIONS AES_KEY_LENGTH_BYTES PBKDF2_DIGEST of
             Inl err \<Rightarrow> (Inl err, w1)
           | Inr derivedKey \<Rightarrow>
               (Inr \<lparr>dk_key = derivedKey, dk_salt = usedSalt, dk_iterations = PBKDF2_ITERATIONS\<rparr>,
                w1\<lparr>key_mem := Some derivedKey\<rparr>))"

text \<open>The decryption module's \<open>deriveKey(password, salt)\<close>: the salt is required.\<close>

definition dec_deriveKey ::
  "crypto \<Rightarrow> string \<Rightarrow> Buffer \<Rightarrow> world \<Rightarrow> (thrown + DerivedKeyResult) \<times> world" where
  "dec_deriveKey c pw saltBytes w =
     (let w0 = w\<lparr>deriveKey_calls := deriveKey_calls w + 1\<rparr> in
      if pw = [] then (Inl (JsError ''Password must not be empty.''), w0)
      else if length saltBytes = 0 then (Inl (JsError ''Salt must be a non-empty Buffer.''), w0)
      else
        case pbkdf2 c pw saltBytes PBKDF2_ITERATIONS AES_KEY_LENGTH_BYTES PBKDF2_DIGEST of
          Inl err \<Rightarrow> (Inl err, w0)
        | Inr derivedKey \<Rightarrow>
            (Inr \<lparr>dk_key = derivedKey, dk_salt = saltBytes, dk_iterations = PBKDF2_ITERATIONS\<rparr>,
             w0\<lparr>key_mem := Some derivedKey\<rparr>))"

section \<open>Input helpers (\<open>utils.ts\<close>)\<close>

text \<open>
  \<open>Buffer.from(s, "utf-8")\<close>: the UTF-8 encoding of the code points of the string.  A
  lead surrogate followed by a trail surrogate is one code point from \<open>0x10000\<close> on; a
  surrogate without its partner is encoded as the replacement character \<open>U+FFFD\<close>.
\<close>

definition utf8_bytes :: "nat \<Rightarrow> Buffer" where
  "utf8_bytes cp =
     (if cp < 128 then [of_nat cp]
      else if cp < 2048 then [of_nat (192 + cp div 64), of_nat (128 + cp mod 64)]
      else if cp < 65536 then
        [of_nat (224 + cp div 4096), of_nat (128 + cp div 64 mod 64), of_nat (128 + cp mod 64)]
      else
        [of_nat (240 + cp div 262144), of_nat (128 + cp div 4096 mod 64),
         of_nat (128 + cp div 64 mod 64), of_nat (128 + cp mod 64)])"

definition is_lead :: "code_unit \<Rightarrow> bool" where
  "is_lead u = (55296 \<le> unat u \<and> unat u < 56320)"

definition is_trail :: "code_unit \<Rightarrow> bool" where
  "is_trail u = (56320 \<le> unat u \<and> unat u < 57344)"

definition replacement :: Buffer where
  "replacement = [239, 191, 189]"

fun utf8_encode :: "code_unit list \<Rightarrow> Buffer" where
  "utf8_encode (u # l # rest) =
     (if is_lead u \<and> is_trail l then
        utf8_bytes (65536 + (unat u - 55296) * 1024 + (unat l - 56320)) @ utf8_encode rest
      else if is_lead u \<or> is_trail u then replacement @ utf8_encode (l # rest)
      else utf8_bytes (unat u) @ utf8_encode (l # rest))"
| "utf8_encode [u] =
     (if is_lead u \<or> is_trail u then replacement else utf8_bytes (unat u))"
| "utf8_encode [] = []"

text \<open>
  \<open>Buffer.from(arrayBuffer, byteOffset, length)\<close>: the \<open>length\<close> bytes of \<open>arrayBuffer\<close>
  from \<open>byteOffset\<close> on.
\<close>

definition Buffer_from_view :: "Buffer \<Rightarrow> nat \<Rightarrow> nat \<Rightarrow> Buffer" where
  "Buffer_from_view arrayBuffer byteOffset len = take len (drop byteOffset arrayBuffer)"

fun normalizeInput :: "EncryptionInput \<Rightarrow> Buffer" where
  "normalizeInput (InBuffer b) = b"
| "normalizeInput (InArrayBuffer ab) = ab"
| "normalizeInput (InUint8Array ab byteOffset byteLength) =
     Buffer_from_view ab byteOffset byteLength"
| "normalizeInput (InString s) = utf8_encode s"

text \<open>\<open>validatePassword\<close> of the encryption module (plain \<open>Error\<close>s, at least 8 characters).\<close>

definition enc_validatePassword :: "string \<Rightarrow> thrown option" where
  "enc_validatePassword pw =
     (if pw = [] then Some (JsError ''Password must be a non-empty string.'')
      else if length pw < 8 then
        Some (JsError ''Password must be at least 8 characters long for adequate security.'')
      else None)"

text \<open>\<open>validatePassword\<close> of the decryption module (non-empty only).\<close>

definition dec_validatePassword :: "string \<Rightarrow> thrown option" where
  "dec_validatePassword pw =
     (if pw = [] then Some (DecryptionError ''Password must be a non-empty string.'' MISSING_FIELDS)
      else None)"

section \<open>Buffer encryption (\<open>encrypt.ts\<close>)\<close>

definition encryptBuffer ::
  "crypto \<Rightarrow> EncryptionInput \<Rightarrow> EncryptBufferOptions \<Rightarrow> world
     \<Rightarrow> (thrown + EncryptedPayload) \<times> world" where
  "encryptBuffer c input options w =
     (case enc_validatePassword (password options) of
        Some err \<Rightarrow> (Inl err, w)
      | None \<Rightarrow>
          let plainBuffer = normalizeInput input;
              (ivBytes, w1) =
                (case opt_iv options of Some v \<Rightarrow> (v, w) | None \<Rightarrow> generateIV IV_LENGTH_BYTES w)
          in case enc_deriveKey c (password options) (opt_salt options) w1 of
               (Inl err, w2) \<Rightarrow> (Inl err, w2)
             | (Inr dk, w2) \<Rightarrow>
                 (case aes_gcm_encrypt c (dk_key dk) ivBytes GCM_AUTH_TAG_LENGTH_BYTES plainBuffer of
                    Inl err \<Rightarrow> (Inl err, w2)
                  | Inr (encrypted, tag) \<Rightarrow>
                      (Inr \<lparr>cipherText = Some (toBase64 encrypted),
                            salt = Some (toBase64 (dk_salt dk)),
                            iv = Some (toBase64 ivBytes),
                            authTag = Some (toBase64 tag),
                            version = Some ENCRYPTION_FORMAT_VERSION\<rparr>,
                       wipe_key w2)))"

section \<open>Buffer decryption (\<open>decrypt.ts\<close>)\<close>

text \<open>\<open>haystack.includes(needle)\<close>\<close>

primrec starts_with :: "string \<Rightarrow> string \<Rightarrow> bool" where
  "starts_with s [] = True"
| "starts_with s (p # ps) = (case s of [] \<Rightarrow> False | x # xs \<Rightarrow> x = p \<and> starts_with xs ps)"

primrec includes_str :: "string \<Rightarrow> string \<Rightarrow> bool" where
  "includes_str [] needle = (needle = [])"
| "includes_str (x # xs) needle = (starts_with (x # xs) needle \<or> includes_str xs needle)"

text \<open>
  The \<open>catch\<close> block of \<open>decryptBuffer\<close> and \<open>decryptBufferRaw\<close>: an \<open>Error\<close> whose message
  mentions the authentication failure becomes \<open>WRONG_PASSWORD\<close>, everything else \<open>UNKNOWN\<close>.
\<close>

definition error_message :: "thrown \<Rightarrow> string option" where
  "error_message error =
     (case error of JsError m \<Rightarrow> Some m | DecryptionError m code \<Rightarrow> Some m | NonError \<Rightarrow> None)"

definition classify :: "thrown \<Rightarrow> thrown" where
  "classify error =
     (case error_message error of
        Some m \<Rightarrow>
          if includes_str m ''Unsupported state'' \<or> includes_str m ''unable to authenticate''
             \<or> includes_str m ''auth''
          then DecryptionError
                 ''Decryption failed: incorrect password or data has been tampered with.''
                 WRONG_PASSWORD
          else DecryptionError (''Decryption failed: '' @ m) UNKNOWN
      | None \<Rightarrow> DecryptionError (''Decryption failed: '' @ ''Unknown error'') UNKNOWN)"

text \<open>\<open>DecryptBufferOptions\<close> and \<open>DecryptFileOptions\<close> are both \<open>{password: string}\<close>.\<close>

record DecryptBufferOptions =
  dec_password :: string

definition decryptBuffer ::
  "crypto \<Rightarrow> EncryptedPayload \<Rightarrow> DecryptBufferOptions \<Rightarrow> world
     \<Rightarrow> (thrown + DecryptionResult) \<times> world" where
  "decryptBuffer c payload options w =
     (case dec_validatePassword (dec_password options) of
        Some err \<Rightarrow> (Inl err, w)
      | None \<Rightarrow>
     (case validatePayload payload of
        Some err \<Rightarrow> (Inl err, w)
      | None \<Rightarrow>
     (case (cipherText payload, salt payload, iv payload, authTag payload) of
        (Some ct, Some s, Some i, Some t) \<Rightarrow>
          let cipherBytes = fromBase64 ct;
              saltBytes = fromBase64 s;
              ivBytes = fromBase64 i;
              authTagBytes = fromBase64 t
          in (case dec_deriveKey c (dec_password options) saltBytes w of
                (Inl err, w1) \<Rightarrow> (Inl err, w1)
              | (Inr dk, w1) \<Rightarrow>
                  ((case aes_gcm_decrypt c (dk_key dk) ivBytes GCM_AUTH_TAG_LENGTH_BYTES
                          authTagBytes cipherBytes of
                      Inr plaintext \<Rightarrow> Inr \<lparr>data = plaintext, verified = True\<rparr>
                    | Inl error \<Rightarrow> Inl (classify error)),
                   wipe_key w1))
      | _ \<Rightarrow> (Inl (JsError ''TypeError''), w))))"

text \<open>\<open>decryptBufferRaw\<close>: the raw payload goes straight to key derivation.\<close>

definition decryptBufferRaw ::
  "crypto \<Rightarrow> EncryptedPayloadRaw \<Rightarrow> DecryptBufferOptions \<Rightarrow> world
     \<Rightarrow> (thrown + DecryptionResult) \<times> world" where
  "decryptBufferRaw c payload options w =
     (case dec_validatePassword (dec_password options) of
        Some err \<Rightarrow> (Inl err, w)
      | None \<Rightarrow>
          (case dec_deriveKey c (dec_password options) (raw_salt payload) w of
             (Inl err, w1) \<Rightarrow> (Inl err, w1)
           | (Inr dk, w1) \<Rightarrow>
               ((case aes_gcm_decrypt c (dk_key dk) (raw_iv payload) GCM_AUTH_TAG_LENGTH_BYTES
                       (raw_authTag payload) (raw_cipherBytes payload) of
                   Inr plaintext \<Rightarrow> Inr \<lparr>data = plaintext, verified = True\<rparr>
                 | Inl error \<Rightarrow> Inl (classify error)),
                wipe_key w1)))"

section \<open>The file system (Node's \<open>fs\<close> and \<open>path\<close>)\<close>

text \<open>
  What the model leaves to the platform: \<open>path.dirname\<close>, the size \<open>stat\<close> reports for a
  directory, and disk faults: \<open>write_fault p d = Some (written, msg)\<close> makes a write of \<open>d\<close>
  to \<open>p\<close> fail with message \<open>msg\<close> after \<open>written\<close> has reached the file (the message
  of a failed \<open>write\<close>, such as \<open>ENOSPC: no space left on device, write\<close>, carries no
  path).
\<close>

record fs_env =
  dirname :: "string \<Rightarrow> string"
  dir_size :: nat
  write_fault :: "string \<Rightarrow> Buffer \<Rightarrow> (Buffer \<times> string) option"

text \<open>Node appends the quoted path to the message of an error of \<open>open\<close>, \<open>mkdir\<close>, \<open>unlink\<close>.\<close>

definition quoted :: "string \<Rightarrow> string" where
  "quoted p = [char_of (39 :: nat)] @ p @ [char_of (39 :: nat)]"

definition existsSync :: "filesystem \<Rightarrow> string \<Rightarrow> bool" where
  "existsSync fs p = (fs p \<noteq> None)"

definition isFile :: "filesystem \<Rightarrow> string \<Rightarrow> bool" where
  "isFile fs p = (case fs p of Some (File b) \<Rightarrow> True | _ \<Rightarrow> False)"

definition readFileSync :: "filesystem \<Rightarrow> string \<Rightarrow> thrown + Buffer" where
  "readFileSync fs p =
     (case fs p of
        Some (File b) \<Rightarrow> Inr b
      | Some Dir \<Rightarrow> Inl (JsError ''EISDIR: illegal operation on a directory, read'')
      | None \<Rightarrow> Inl (JsError (''ENOENT: no such file or directory, open '' @ quoted p)))"

definition mkdirSync :: "filesystem \<Rightarrow> string \<Rightarrow> thrown option \<times> filesystem" where
  "mkdirSync fs p =
     (case fs p of
        Some (File b) \<Rightarrow> (Some (JsError (''EEXIST: file already exists, mkdir '' @ quoted p)), fs)
      | _ \<Rightarrow> (None, fs(p \<mapsto> Dir)))"

definition writeFileSync ::
  "fs_env \<Rightarrow> filesystem \<Rightarrow> string \<Rightarrow> Buffer \<Rightarrow> thrown option \<times> filesystem" where
  "writeFileSync env fs p d =
     (case fs p of
        Some Dir \<Rightarrow>
          (Some (JsError (''EISDIR: illegal operation on a directory, open '' @ quoted p)), fs)
      | _ \<Rightarrow>
          (case fs (dirname env p) of
             Some Dir \<Rightarrow>
               (case write_fault env p d of
                  Some (written, msg) \<Rightarrow> (Some (JsError msg), fs(p \<mapsto> File written))
                | None \<Rightarrow> (None, fs(p \<mapsto> File d)))
           | _ \<Rightarrow>
               (Some (JsError (''ENOENT: no such file or directory, open '' @ quoted p)), fs)))"

definition unlinkSync :: "filesystem \<Rightarrow> string \<Rightarrow> thrown option \<times> filesystem" where
  "unlinkSync fs p =
     (case fs p of
        Some (File b) \<Rightarrow> (None, fs(p := None))
      | Some Dir \<Rightarrow> (Some (JsError (''EPERM: operation not permitted, unlink '' @ quoted p)), fs)
      | None \<Rightarrow> (Some (JsError (''ENOENT: no such file or directory, unlink '' @ quoted p)), fs))"

definition stat_size :: "fs_env \<Rightarrow> node \<Rightarrow> nat" where
  "stat_size env n = (case n of File b \<Rightarrow> length b | Dir \<Rightarrow> dir_size env)"

section \<open>Whole-file decryption (\<open>decrypt.ts\<close>)\<close>

text \<open>The body of the \<open>try\<close> block of \<open>decryptFile\<close>.\<close>

definition decryptFile_try ::
  "crypto \<Rightarrow> fs_env \<Rightarrow> string \<Rightarrow> EncryptionMetadata \<Rightarrow> Buffer \<Rightarrow> Buffer \<Rightarrow> Buffer \<Rightarrow> Buffer
     \<Rightarrow> filesystem \<Rightarrow> (thrown + DecryptFileResult) \<times> filesystem" where
  "decryptFile_try c env outputPath metadata keyBytes ivBytes authTagBytes cipherBytes fs =
     (case aes_gcm_decrypt c keyBytes ivBytes GCM_AUTH_TAG_LENGTH_BYTES authTagBytes cipherBytes of
        Inl err \<Rightarrow> (Inl err, fs)
      | Inr plaintext \<Rightarrow>
          let outputDir = dirname env outputPath;
              (mk, fs1) = (if \<not> existsSync fs outputDir then mkdirSync fs outputDir else (None, fs))
          in case mk of
               Some err \<Rightarrow> (Inl err, fs1)
             | None \<Rightarrow>
                 (case writeFileSync env fs1 outputPath plaintext of
                    (Some err, fs2) \<Rightarrow> (Inl err, fs2)
                  | (None, fs2) \<Rightarrow>
                      (Inr \<lparr>res_outputPath = outputPath,
                            res_originalFileName = md_originalFileName metadata,
                            res_mimeType = md_mimeType metadata,
                            res_size = length plaintext,
                            res_verified = True\<rparr>, fs2)))"

text \<open>
  The clean-up at the head of a \<open>catch\<close> block: if something exists at \<open>outputPath\<close>,
  unlink it, ignoring a failure of the unlink itself.
\<close>

definition cleanup_output :: "filesystem \<Rightarrow> string \<Rightarrow> filesystem" where
  "cleanup_output fs outputPath =
     (if existsSync fs outputPath then snd (unlinkSync fs outputPath) else fs)"

definition decryptFile ::
  "crypto \<Rightarrow> fs_env \<Rightarrow> string \<Rightarrow> string \<Rightarrow> EncryptionMetadata \<Rightarrow> DecryptBufferOptions \<Rightarrow> world
     \<Rightarrow> (thrown + DecryptFileResult) \<times> world" where
  "decryptFile c env inputPath outputPath metadata options w =
     (case dec_validatePassword (dec_password options) of
        Some err \<Rightarrow> (Inl err, w)
      | None \<Rightarrow>
          if \<not> existsSync (files w) inputPath then
            (Inl (DecryptionError (''Encrypted file not found: '' @ inputPath) FILE_ERROR), w)
          else if \<not> isFile (files w) inputPath then
            (Inl (DecryptionError (''Input path is not a file: '' @ inputPath) FILE_ERROR), w)
          else
            let saltBytes = fromBase64 (md_salt metadata);
                ivBytes = fromBase64 (md_iv metadata);
                authTagBytes = fromBase64 (md_authTag metadata)
            in case readFileSync (files w) inputPath of
                 Inl err \<Rightarrow> (Inl err, w)
               | Inr cipherBytes \<Rightarrow>
                   (case dec_deriveKey c (dec_password options) saltBytes w of
                      (Inl err, w1) \<Rightarrow> (Inl err, w1)
                    | (Inr dk, w1) \<Rightarrow>
                        (case decryptFile_try c env outputPath metadata (dk_key dk) ivBytes
                                authTagBytes cipherBytes (files w1) of
                           (Inr result, fs1) \<Rightarrow> (Inr result, wipe_key (w1\<lparr>files := fs1\<rparr>))
                         | (Inl error, fs1) \<Rightarrow>
                             (Inl (case error of
                                     DecryptionError m code \<Rightarrow> error
                                   | _ \<Rightarrow> classify error),
                              wipe_key (w1\<lparr>files := cleanup_output fs1 outputPath\<rparr>)))))"

section \<open>Streamed decryption (\<open>decrypt.ts\<close>)\<close>

text \<open>
  \<open>decryptFileStream\<close> first runs synchronously up to the creation of the two streams
  (\<open>decryptFileStream_setup\<close>: \<open>Some e\<close> is thrown, \<open>None\<close> means the promise is created
  and pending).  From then on the promise is settled by the event handlers it registers.
\<close>

definition decryptFileStream_setup ::
  "crypto \<Rightarrow> fs_env \<Rightarrow> string \<Rightarrow> string \<Rightarrow> EncryptionMetadata \<Rightarrow> DecryptBufferOptions \<Rightarrow> world
     \<Rightarrow> thrown option \<times> world" where
  "decryptFileStream_setup c env inputPath outputPath metadata options w =
     (case dec_validatePassword (dec_password options) of
        Some err \<Rightarrow> (Some err, w)
      | None \<Rightarrow>
          if \<not> existsSync (files w) inputPath then
            (Some (DecryptionError (''Encrypted file not found: '' @ inputPath) FILE_ERROR), w)
          else if \<not> isFile (files w) inputPath then
            (Some (DecryptionError (''Input path is not a file: '' @ inputPath) FILE_ERROR), w)
          else
            let saltBytes = fromBase64 (md_salt metadata);
                ivBytes = fromBase64 (md_iv metadata);
                authTagBytes = fromBase64 (md_authTag metadata)
            in case dec_deriveKey c (dec_password options) saltBytes w of
                 (Inl err, w1) \<Rightarrow> (Some err, w1)
               | (Inr dk, w1) \<Rightarrow>
                   (case decipher_init c (dk_key dk) ivBytes GCM_AUTH_TAG_LENGTH_BYTES authTagBytes of
                      Some err \<Rightarrow> (Some err, w1)
                    | None \<Rightarrow>
                        let outputDir = dirname env outputPath;
                            (mk, fs1) = (if \<not> existsSync (files w1) outputDir
                                         then mkdirSync (files w1) outputDir
                                         else (None, files w1))
                        in (mk, w1\<lparr>files := fs1\<rparr>)))"

datatype 'a promise = Pending | Resolved 'a | Rejected thrown

record stream_state =
  st_world :: world
  st_promise :: "DecryptFileResult promise"
  st_bytesProcessed :: nat
  st_progress :: "(nat \<times> nat) list"
  st_writeStream_destroyed :: bool

definition initial_stream :: "world \<Rightarrow> stream_state" where
  "initial_stream w =
     \<lparr>st_world = w, st_promise = Pending, st_bytesProcessed = 0, st_progress = [],
      st_writeStream_destroyed = False\<rparr>"

text \<open>A promise is settled once: later calls of \<open>resolve\<close> and \<open>reject\<close> do nothing.\<close>

definition resolve :: "DecryptFileResult \<Rightarrow> stream_state \<Rightarrow> stream_state" where
  "resolve r st = (case st_promise st of Pending \<Rightarrow> st\<lparr>st_promise := Resolved r\<rparr> | _ \<Rightarrow> st)"

definition reject :: "thrown \<Rightarrow> stream_state \<Rightarrow> stream_state" where
  "reject e st = (case st_promise st of Pending \<Rightarrow> st\<lparr>st_promise := Rejected e\<rparr> | _ \<Rightarrow> st)"

definition wipe_stream_key :: "stream_state \<Rightarrow> stream_state" where
  "wipe_stream_key st = st\<lparr>st_world := wipe_key (st_world st)\<rparr>"

text \<open>\<open>readStream.on("data", ...)\<close>; \<open>hasProgress\<close> says whether \<open>onProgress\<close> was given.\<close>

definition on_data :: "bool \<Rightarrow> nat \<Rightarrow> Buffer \<Rightarrow> stream_state \<Rightarrow> stream_state" where
  "on_data hasProgress totalBytes chunk st =
     (let n = st_bytesProcessed st + length chunk in
      st\<lparr>st_bytesProcessed := n,
         st_progress := (if hasProgress then st_progress st @ [(n, totalBytes)] else st_progress st)\<rparr>)"

text \<open>\<open>readStream.on("error", ...)\<close>\<close>

definition on_read_error :: "string \<Rightarrow> stream_state \<Rightarrow> stream_state" where
  "on_read_error msg st =
     reject (DecryptionError (''Failed to read encrypted file: '' @ msg) FILE_ERROR)
       (wipe_stream_key st)"

text \<open>\<open>writeStream.on("error", ...)\<close>\<close>

definition on_write_error :: "string \<Rightarrow> stream_state \<Rightarrow> stream_state" where
  "on_write_error msg st =
     reject (DecryptionError (''Failed to write decrypted file: '' @ msg) FILE_ERROR)
       (wipe_stream_key st)"

text \<open>
  \<open>writeStream.on("finish", ...)\<close>.  \<open>statSync\<close> throws inside the handler when nothing
  is at \<open>outputPath\<close>; the promise is then left as it is.
\<close>

definition on_finish ::
  "fs_env \<Rightarrow> string \<Rightarrow> EncryptionMetadata \<Rightarrow> stream_state \<Rightarrow> stream_state" where
  "on_finish env outputPath metadata st =
     (let st1 = wipe_stream_key st in
      case files (st_world st1) outputPath of
        None \<Rightarrow> st1
      | Some n \<Rightarrow>
          resolve \<lparr>res_outputPath = outputPath,
                   res_originalFileName = md_originalFileName metadata,
                   res_mimeType = md_mimeType metadata,
                   res_size = stat_size env n,
                   res_verified = True\<rparr> st1)"

text \<open>\<open>decipher.on("error", ...)\<close>: the authentication failure arrives here.\<close>

definition on_decipher_error :: "string \<Rightarrow> stream_state \<Rightarrow> stream_state" where
  "on_decipher_error outputPath st =
     (let st1 = wipe_stream_key st;
          st2 = st1\<lparr>st_writeStream_destroyed := True\<rparr>;
          st3 = st2\<lparr>st_world :=
                  (st_world st2)\<lparr>files := cleanup_output (files (st_world st2)) outputPath\<rparr>\<rparr>
      in reject (DecryptionError
                   ''Decryption failed: incorrect password or data has been tampered with.''
                   WRONG_PASSWORD) st3)"

text \<open>The events the registered handlers react to, and a run of the handlers over them.\<close>

datatype stream_event =
    ReadData Buffer
  | ReadError string
  | WriteError string
  | WriteFinish
  | DecipherError string

fun handle_event ::
  "fs_env \<Rightarrow> string \<Rightarrow> EncryptionMetadata \<Rightarrow> bool \<Rightarrow> nat \<Rightarrow> stream_event \<Rightarrow> stream_state
     \<Rightarrow> stream_state" where
  "handle_event env outputPath metadata hasProgress totalBytes (ReadData chunk) st =
     on_data hasProgress totalBytes chunk st"
| "handle_event env outputPath metadata hasProgress totalBytes (ReadError msg) st =
     on_read_error msg st"
| "handle_event env outputPath metadata hasProgress totalBytes (WriteError msg) st =
     on_write_error msg st"
| "handle_event env outputPath metadata hasProgress totalBytes WriteFinish st =
     on_finish env outputPath metadata st"
| "handle_event env outputPath metadata hasProgress totalBytes (DecipherError msg) st =
     on_decipher_error outputPath st"

definition run_events ::
  "fs_env \<Rightarrow> string \<Rightarrow> EncryptionMetadata \<Rightarrow> bool \<Rightarrow> nat \<Rightarrow> stream_event list \<Rightarrow> stream_state
     \<Rightarrow> stream_state" where
  "run_events env outputPath metadata hasProgress totalBytes events st =
     fold (handle_event env outputPath metadata hasProgress totalBytes) events st"

section \<open>What is assumed of the primitives\<close>

text \<open>
  \<open>kdf_ok\<close>: PBKDF2 with the module's parameters returns a key of the requested 32 bytes.
\<close>

definition kdf_ok :: "crypto \<Rightarrow> bool" where
  "kdf_ok c =
     (\<forall>pw s. \<exists>k. pbkdf2 c pw s PBKDF2_ITERATIONS AES_KEY_LENGTH_BYTES PBKDF2_DIGEST = Inr k
                \<and> length k = AES_KEY_LENGTH_BYTES)"

text \<open>
  \<open>gcm_roundtrip\<close>: with a 32-byte key and a 12-byte IV, AES-256-GCM encryption succeeds
  with a 16-byte tag, and decryption with the same key, IV and tag gives the plaintext
  back.
\<close>

definition gcm_roundtrip :: "crypto \<Rightarrow> bool" where
  "gcm_roundtrip c =
     (\<forall>k i p. length k = AES_KEY_LENGTH_BYTES \<and> length i = IV_LENGTH_BYTES \<longrightarrow>
        (\<exists>ct t. aes_gcm_encrypt c k i GCM_AUTH_TAG_LENGTH_BYTES p = Inr (ct, t)
               \<and> length t = GCM_AUTH_TAG_LENGTH_BYTES
               \<and> aes_gcm_decrypt c k i GCM_AUTH_TAG_LENGTH_BYTES t ct = Inr p))"

text \<open>\<open>gcm_length\<close>: GCM is a stream mode, the ciphertext is as long as the plaintext.\<close>

definition gcm_length :: "crypto \<Rightarrow> bool" where
  "gcm_length c =
     (\<forall>k i n p ct t. aes_gcm_encrypt c k i n p = Inr (ct, t) \<longrightarrow> length ct = length p)"


text \<open>The error of \<open>decipher.final()\<close> when the tag does not verify.\<close>

definition auth_failure :: thrown where
  "auth_failure = JsError ''Unsupported state or unable to authenticate data''"



section \<open>An executable instance of the primitives\<close>

text \<open>
  A small stand-in for the primitives (of no cryptographic strength) with the interface
  properties above; the operations are run on it for concrete inputs.  Its key repeats
  a checksum of password and salt, its cipher adds a pad derived from key and IV to
  every byte, and its tag repeats a checksum of pad and ciphertext.
\<close>

definition demo_pad :: "Buffer \<Rightarrow> Buffer \<Rightarrow> byte" where
  "demo_pad k i = sum_list k + sum_list i"

definition demo_tag :: "Buffer \<Rightarrow> Buffer \<Rightarrow> nat \<Rightarrow> Buffer \<Rightarrow> Buffer" where
  "demo_tag k i n ct = replicate n (demo_pad k i + sum_list ct + 1)"

definition demo_init :: "Buffer \<Rightarrow> Buffer \<Rightarrow> thrown option" where
  "demo_init k i =
     (if length k \<noteq> 32 then Some (JsError ''Invalid key length'')
      else if i = [] then Some (JsError ''Invalid initialization vector'')
      else None)"

definition demo_crypto :: crypto where
  "demo_crypto =
     \<lparr>pbkdf2 = (\<lambda>pw s iterations keylen digest.
         Inr (replicate keylen (of_nat (sum_list (map of_char pw)) + sum_list s))),
      aes_gcm_encrypt = (\<lambda>k i n p.
         case demo_init k i of
           Some err \<Rightarrow> Inl err
         | None \<Rightarrow>
             let ct = map (\<lambda>b. b + demo_pad k i) p in Inr (ct, demo_tag k i n ct)),
      aes_gcm_decrypt = (\<lambda>k i n t ct.
         case demo_init k i of
           Some err \<Rightarrow> Inl err
         | None \<Rightarrow>
             if length t \<noteq> n then Inl (JsError ''Invalid authentication tag length'')
             else if t = demo_tag k i n ct then Inr (map (\<lambda>b. b - demo_pad k i) ct)
             else Inl auth_failure),
      decipher_init = (\<lambda>k i n t.
         case demo_init k i of
           Some err \<Rightarrow> Some err
         | None \<Rightarrow>
             if length t \<noteq> n then Some (JsError ''Invalid authentication tag length'')
             else None)\<rparr>"

text \<open>A starting state: entropy \<open>0, 1, 2, ...\<close>, no key, an empty file system.\<close>

definition demo_world :: world where
  "demo_world =
     \<lparr>entropy = (\<lambda>j. of_nat j), deriveKey_calls = 0, key_mem = None, files = Map.empty\<rparr>"

text \<open>
  A platform for the file operations: a \<open>dirname\<close> for paths without trailing or doubled
  slashes, and a disk without faults.
\<close>

definition demo_dirname :: "string \<Rightarrow> string" where
  "demo_dirname p =
     (case dropWhile (\<lambda>ch. ch \<noteq> CHR ''/'') (rev p) of
        [] \<Rightarrow> ''.''
      | x # r \<Rightarrow> if r = [] then ''/'' else rev r)"

definition demo_env :: fs_env where
  "demo_env = \<lparr>dirname = demo_dirname, dir_size = 4096, write_fault = (\<lambda>p d. None)\<rparr>"

definition demo_metadata :: EncryptionMetadata where
  "demo_metadata =
     \<lparr>md_salt = ''DA0ODxAREhMUFRYXGBkaGw=='', md_iv = ''AAECAwQFBgcICQoL'',
      md_authTag = ''Dw8PDw8PDw8PDw8PDw8PDw=='', md_originalFileName = ''plain.txt'',
      md_mimeType = ''text/plain'', md_originalSize = 3, md_version = 1,
      md_encryptedAt = ''2026-01-15T10:30:00.000Z''\<rparr>"

text \<open>
  A file system with an encrypted input file and a file already present at the output
  path, and the state of a streamed decryption whose write stream has put two bytes of
  plaintext into the output file.
\<close>

definition demo_files :: filesystem where
  "demo_files =
     [''/in/plain.txt.enc'' \<mapsto> File [195, 196, 197], ''/in'' \<mapsto> Dir,
      ''/out/plain.txt'' \<mapsto> File [9, 9, 9], ''/out'' \<mapsto> Dir]"

definition demo_stream :: stream_state where
  "demo_stream =
     initial_stream
       (demo_world\<lparr>key_mem := Some (replicate 32 220),
                   files := [''/in/plain.txt.enc'' \<mapsto> File [195, 196, 197], ''/in'' \<mapsto> Dir,
                             ''/out/plain.txt'' \<mapsto> File [1, 2], ''/out'' \<mapsto> Dir]\<rparr>)"

section \<open>Base-64: encoding and decoding are inverse\<close>

lemma unat_byte_less: "unat (a :: byte) < 256"
  using unsigned_less [of a] by simp

lemma of_char_b64char:
  "n < 64 \<Longrightarrow> (of_char (b64char n) :: nat) =
     (if n < 26 then 65 + n else if n < 52 then 71 + n else if n < 62 then n - 4
      else if n = 62 then 43 else 47)"
  by (simp add: b64char_def)

lemma unbase64_b64char: "n < 64 \<Longrightarrow> unbase64 (b64char n) = Some n"
  unfolding unbase64_def Let_def
  apply (simp only: of_char_b64char)
  apply (auto simp: b64char_def)
  done

lemma b64char_not_pad: "n < 64 \<Longrightarrow> b64char n \<noteq> CHR ''=''"
proof
  assume n: "n < 64" and "b64char n = CHR ''=''"
  then have "(of_char (b64char n) :: nat) = 61" by simp
  with n show False by (simp add: of_char_b64char split: if_splits)
qed

lemma b64char_alphabet: "n < 64 \<Longrightarrow> isBase64Alphabet (b64char n)"
  unfolding isBase64Alphabet_def Let_def
  apply (simp only: of_char_b64char)
  apply (auto simp: b64char_def)
  done

lemma pad_not_alphabet: "\<not> isBase64Alphabet (CHR ''='')"
  by (simp add: isBase64Alphabet_def)

lemma byte_split1:
  "y < 256 \<Longrightarrow> (x div 4) * 4 + (x mod 4 * 16 + y div 16) div 16 = (x::nat)"
proof -
  assume "y < 256"
  then have "y div 16 < 16" by simp
  then have "(x mod 4 * 16 + y div 16) div 16 = x mod 4" by simp
  then show ?thesis by simp
qed

lemma byte_split2:
  "y < 256 \<Longrightarrow> z < 256 \<Longrightarrow>
   (x mod 4 * 16 + y div 16) mod 16 * 16 + (y mod 16 * 4 + z div 64) div 4 = (y::nat)"
proof -
  assume "y < 256" "z < 256"
  then have a: "y div 16 < 16" and b: "z div 64 < 4" by simp_all
  from a have "(x mod 4 * 16 + y div 16) mod 16 = y div 16" by simp
  moreover from b have "(y mod 16 * 4 + z div 64) div 4 = y mod 16" by simp
  ultimately show ?thesis by simp
qed

lemma byte_split3:
  "z < 256 \<Longrightarrow> (y mod 16 * 4 + z div 64) mod 4 * 64 + z mod 64 = (z::nat)"
proof -
  assume "z < 256"
  then have b: "z div 64 < 4" by simp
  then have "(y mod 16 * 4 + z div 64) mod 4 = z div 64" by simp
  then show ?thesis by simp
qed

lemma sextet_bounds:
  fixes a b c :: byte
  shows "unat a div 4 < 64" "unat a mod 4 * 16 + unat b div 16 < 64"
    "unat b mod 16 * 4 + unat c div 64 < 64" "unat c mod 64 < 64"
    "unat a mod 4 * 16 < 64" "unat b mod 16 * 4 < 64"
proof -
  have a: "unat a < 256" and b: "unat b < 256" and c: "unat c < 256"
    by (rule unat_byte_less)+
  from a show "unat a div 4 < 64" by simp
  from b have "unat b div 16 < 16" by simp
  moreover have "unat a mod 4 < 4" by simp
  ultimately show "unat a mod 4 * 16 + unat b div 16 < 64" by linarith
  from c have "unat c div 64 < 4" by simp
  moreover have "unat b mod 16 < 16" by simp
  ultimately show "unat b mod 16 * 4 + unat c div 64 < 64" by linarith
  show "unat c mod 64 < 64" by simp
  have "unat a mod 4 < 4" by simp
  then show "unat a mod 4 * 16 < 64" by linarith
  have "unat b mod 16 < 16" by simp
  then show "unat b mod 16 * 4 < 64" by linarith
qed

lemma sextets_char:
  "n < 64 \<Longrightarrow>
   List.map_filter unbase64 (takeWhile (\<lambda>ch. ch \<noteq> CHR ''='') (b64char n # s))
     = n # List.map_filter unbase64 (takeWhile (\<lambda>ch. ch \<noteq> CHR ''='') s)"
  by (simp add: b64char_not_pad unbase64_b64char map_filter_simps)

lemma sextets_pad:
  "List.map_filter unbase64 (takeWhile (\<lambda>ch. ch \<noteq> CHR ''='') (CHR ''='' # s)) = []"
  by (simp add: map_filter_simps)

lemma byte1:
  fixes a b :: byte
  shows "(of_nat (unat a div 4 * 4 + (unat a mod 4 * 16 + unat b div 16) div 16) :: byte) = a"
  by (simp only: byte_split1 [OF unat_byte_less] of_nat_unat ucast_id)

lemma byte2:
  fixes a b c :: byte
  shows "(of_nat ((unat a mod 4 * 16 + unat b div 16) mod 16 * 16
            + (unat b mod 16 * 4 + unat c div 64) div 4) :: byte) = b"
  by (simp only: byte_split2 [OF unat_byte_less unat_byte_less] of_nat_unat ucast_id)

lemma byte3:
  fixes b c :: byte
  shows "(of_nat ((unat b mod 16 * 4 + unat c div 64) mod 4 * 64 + unat c mod 64) :: byte) = c"
  by (simp only: byte_split3 [OF unat_byte_less] of_nat_unat ucast_id)

lemma byte1_last:
  fixes a :: byte
  shows "(of_nat (unat a div 4 * 4 + (unat a mod 4 * 16) div 16) :: byte) = a"
  using byte1 [of a 0] by simp

lemma byte2_last:
  fixes a b :: byte
  shows "(of_nat ((unat a mod 4 * 16 + unat b div 16) mod 16 * 16
            + (unat b mod 16 * 4) div 4) :: byte) = b"
  using byte2 [of a b 0] by simp

lemma fromBase64_toBase64: "fromBase64 (toBase64 b) = b"
  unfolding fromBase64_def
proof (induction b rule: toBase64.induct)
  case (1 a b c rest)
  then show ?case
    by (simp only: toBase64.simps append_Cons append_Nil sextets_char sextet_bounds
        decode_groups.simps byte1 byte2 byte3)
next
  case (2 a b)
  show ?case
    by (simp only: toBase64.simps sextets_char sextets_pad sextet_bounds
        decode_groups.simps byte1 byte2_last)
next
  case (3 a)
  show ?case
    by (simp only: toBase64.simps sextets_char sextets_pad sextet_bounds
        decode_groups.simps byte1_last)
next
  case 4
  show ?case by (simp add: map_filter_simps)
qed

lemma toBase64_inj: "toBase64 a = toBase64 b \<longleftrightarrow> a = b"
  by (metis fromBase64_toBase64)

lemma length_toBase64: "length (toBase64 b) mod 4 = 0"
  by (induction b rule: toBase64.induct) simp_all

lemma toBase64_eq_Nil: "toBase64 b = [] \<longleftrightarrow> b = []"
  by (cases b rule: toBase64.cases) simp_all

lemma regex_toBase64: "base64Regex_test (toBase64 b)"
  unfolding base64Regex_test_def Let_def
  by (induction b rule: toBase64.induct)
     (simp_all add: b64char_alphabet sextet_bounds pad_not_alphabet)

lemma isValidBase64_toBase64: "isValidBase64 (toBase64 b) \<longleftrightarrow> b \<noteq> []"
  by (simp add: isValidBase64_def regex_toBase64 length_toBase64 toBase64_eq_Nil)

text \<open>
  The regular expression, read as a language: a run of alphabet characters followed by
  at most two \<open>=\<close>.
\<close>

lemma base64Regex_test_iff:
  "base64Regex_test s \<longleftrightarrow>
     (\<exists>body pad. s = body @ pad \<and> (\<forall>ch \<in> set body. isBase64Alphabet ch)
        \<and> (pad = [] \<or> pad = ''='' \<or> pad = ''==''))"
proof
  assume "base64Regex_test s"
  then have "dropWhile isBase64Alphabet s = [] \<or> dropWhile isBase64Alphabet s = ''=''
      \<or> dropWhile isBase64Alphabet s = ''==''"
    by (simp add: base64Regex_test_def Let_def)
  moreover have "s = takeWhile isBase64Alphabet s @ dropWhile isBase64Alphabet s" by simp
  moreover have "\<forall>ch \<in> set (takeWhile isBase64Alphabet s). isBase64Alphabet ch"
    by (auto dest: set_takeWhileD)
  ultimately show "\<exists>body pad. s = body @ pad \<and> (\<forall>ch \<in> set body. isBase64Alphabet ch)
        \<and> (pad = [] \<or> pad = ''='' \<or> pad = ''=='')"
    by blast
next
  assume "\<exists>body pad. s = body @ pad \<and> (\<forall>ch \<in> set body. isBase64Alphabet ch)
        \<and> (pad = [] \<or> pad = ''='' \<or> pad = ''=='')"
  then obtain body pad where s: "s = body @ pad"
    and body: "\<forall>ch \<in> set body. isBase64Alphabet ch"
    and pad: "pad = [] \<or> pad = ''='' \<or> pad = ''==''"
    by blast
  from body have "dropWhile isBase64Alphabet s = dropWhile isBase64Alphabet pad"
    by (simp add: s dropWhile_append2)
  also from pad have "dropWhile isBase64Alphabet pad = pad"
    by (auto simp: pad_not_alphabet)
  finally show "base64Regex_test s"
    using pad by (simp add: base64Regex_test_def Let_def)
qed

section \<open>Payload validation\<close>

lemma show_nat_digit: "n < 10 \<Longrightarrow> show_nat n = [char_of (48 + n)]"
  by (subst show_nat.simps) simp

lemma show_nat_16: "show_nat 16 = ''16''"
  by (subst show_nat.simps) (simp add: show_nat_digit char_of_eq_iff)

lemma show_nat_12: "show_nat 12 = ''12''"
  by (subst show_nat.simps) (simp add: show_nat_digit char_of_eq_iff)

lemma show_nat_9: "show_nat 9 = ''9''"
  by (simp add: show_nat_digit char_of_eq_iff)

lemma show_int_1: "show_int 1 = ''1''"
  by (simp add: show_int_def show_nat_digit char_of_eq_iff)

lemma show_int_999: "show_int 999 = ''999''"
proof -
  have "show_nat 99 = ''99''"
    by (subst show_nat.simps) (simp add: show_nat_digit char_of_eq_iff)
  then have "show_nat 999 = ''999''"
    by (subst show_nat.simps) (simp add: char_of_eq_iff)
  then show ?thesis by (simp add: show_int_def)
qed

lemma check_required_present:
  "check_required
     \<lparr>cipherText = Some ct, salt = Some s, iv = Some i, authTag = Some t, version = Some v\<rparr>
     requiredFields = None"
  by (simp add: requiredFields_def field_absent_def)

lemma validatePayload_encoded:
  assumes "length s = SALT_LENGTH_BYTES" "length i = IV_LENGTH_BYTES"
    and "length t = GCM_AUTH_TAG_LENGTH_BYTES"
  shows "validatePayload
           \<lparr>cipherText = Some (toBase64 ct), salt = Some (toBase64 s), iv = Some (toBase64 i),
            authTag = Some (toBase64 t), version = Some ENCRYPTION_FORMAT_VERSION\<rparr> = None"
proof -
  from assms have ne: "s \<noteq> []" "i \<noteq> []" "t \<noteq> []"
    by (auto simp: constants_defs)
  have ct: "\<not> (length (toBase64 ct) > 0 \<and> \<not> isValidBase64 (toBase64 ct))"
    by (simp add: isValidBase64_toBase64 toBase64_eq_Nil)
  show ?thesis
    unfolding validatePayload_def
    using assms ne ct
    by (simp add: check_required_present isValidBase64_toBase64 fromBase64_toBase64)
qed

lemma validatePayload_salt_nonempty:
  assumes "validatePayload payload = None" and "salt payload = Some s"
  shows "fromBase64 s \<noteq> []"
proof -
  from assms have "length (fromBase64 s) = SALT_LENGTH_BYTES"
    by (auto simp: validatePayload_def split: option.splits if_splits)
  then show ?thesis by (auto simp: SALT_LENGTH_BYTES_def)
qed

lemma version_checked:
  "version payload \<noteq> Some ENCRYPTION_FORMAT_VERSION \<Longrightarrow> validatePayload payload \<noteq> None"
  by (auto simp: validatePayload_def split: option.splits if_splits)

lemma not_valid_base64:
  "\<not> isValidBase64 ''not-valid!!!''"
  by (simp add: isValidBase64_def base64Regex_test_def isBase64Alphabet_def)

lemma valid_base64_samples:
  "isValidBase64 ''AAAAAAAAAAAAAAAAAAAAAA==''" "isValidBase64 ''AAAAAAAAAAAAAAAA''"
  "isValidBase64 ''AAAAAAAAAAAA''"
  by (simp_all add: isValidBase64_def base64Regex_test_def isBase64Alphabet_def)

lemma decode_samples:
  "length (fromBase64 ''AAAAAAAAAAAAAAAAAAAAAA=='') = 16"
  "length (fromBase64 ''AAAAAAAAAAAAAAAA'') = 12"
  "length (fromBase64 ''AAAAAAAAAAAA'') = 9"
  by (simp_all add: fromBase64_def unbase64_def map_filter_simps)

text \<open>
  Claim C6.  \<open>validatePayload\<close> checks in this order and with these errors: a missing
  required field (\<open>cipherText\<close>, \<open>salt\<close>, \<open>iv\<close>, \<open>authTag\<close>, \<open>version\<close>) is
  \<open>MISSING_FIELDS\<close>; then \<open>cipherText\<close> (only when non-empty), \<open>salt\<close>, \<open>iv\<close> and
  \<open>authTag\<close> that are not well-formed base-64 are \<open>INVALID_FORMAT\<close>; then decoded
  lengths of salt, IV and tag other than 16, 12 and 16 bytes are \<open>INVALID_FORMAT\<close>;
  then a version other than 1 is \<open>UNSUPPORTED_VERSION\<close>; a payload that passes all
  checks raises nothing.
\<close>

theorem validatePayload_order:
  "validatePayload p =
     (case cipherText p of
        None \<Rightarrow> Some (DecryptionError ''Missing required field: cipherText'' MISSING_FIELDS)
      | Some ct \<Rightarrow>
     (case salt p of
        None \<Rightarrow> Some (DecryptionError ''Missing required field: salt'' MISSING_FIELDS)
      | Some s \<Rightarrow>
     (case iv p of
        None \<Rightarrow> Some (DecryptionError ''Missing required field: iv'' MISSING_FIELDS)
      | Some i \<Rightarrow>
     (case authTag p of
        None \<Rightarrow> Some (DecryptionError ''Missing required field: authTag'' MISSING_FIELDS)
      | Some t \<Rightarrow>
     (case version p of
        None \<Rightarrow> Some (DecryptionError ''Missing required field: version'' MISSING_FIELDS)
      | Some v \<Rightarrow>
          if ct \<noteq> [] \<and> \<not> isValidBase64 ct then
            Some (DecryptionError ''cipherText is not valid base-64'' INVALID_FORMAT)
          else if \<not> isValidBase64 s then
            Some (DecryptionError ''salt is not valid base-64'' INVALID_FORMAT)
          else if \<not> isValidBase64 i then
            Some (DecryptionError ''iv is not valid base-64'' INVALID_FORMAT)
          else if \<not> isValidBase64 t then
            Some (DecryptionError ''authTag is not valid base-64'' INVALID_FORMAT)
          else if length (fromBase64 s) \<noteq> 16 then
            Some (DecryptionError
                    (''Salt must be 16 bytes, got '' @ show_nat (length (fromBase64 s)))
                    INVALID_FORMAT)
          else if length (fromBase64 i) \<noteq> 12 then
            Some (DecryptionError
                    (''IV must be 12 bytes, got '' @ show_nat (length (fromBase64 i)))
                    INVALID_FORMAT)
          else if length (fromBase64 t) \<noteq> 16 then
            Some (DecryptionError
                    (''Auth tag must be 16 bytes, got '' @ show_nat (length (fromBase64 t)))
                    INVALID_FORMAT)
          else if v \<noteq> 1 then
            Some (DecryptionError
                    (''Unsupported encryption version: '' @ show_int v @ '' (expected 1)'')
                    UNSUPPORTED_VERSION)
          else None)))))"
  unfolding validatePayload_def
  by (simp add: requiredFields_def field_absent_def constants_defs show_nat_16 show_nat_12
      show_int_1 split: option.splits)

text \<open>
  The payloads of the test suite: the empty object, the one with four malformed fields,
  a wrong IV length, a wrong version, and a valid record.
\<close>

theorem validatePayload_order_witness:
  "validatePayload \<lparr>cipherText = None, salt = None, iv = None, authTag = None, version = None\<rparr>
     = Some (DecryptionError ''Missing required field: cipherText'' MISSING_FIELDS)
   \<and> validatePayload \<lparr>cipherText = Some ''not-valid!!!'', salt = Some ''also-bad'',
                       iv = Some ''nope'', authTag = Some ''nah'', version = Some 1\<rparr>
     = Some (DecryptionError ''cipherText is not valid base-64'' INVALID_FORMAT)
   \<and> validatePayload \<lparr>cipherText = Some [], salt = Some ''AAAAAAAAAAAAAAAAAAAAAA=='',
                       iv = Some ''AAAAAAAAAAAA'', authTag = Some ''AAAAAAAAAAAAAAAAAAAAAA=='',
                       version = Some 999\<rparr>
     = Some (DecryptionError ''IV must be 12 bytes, got 9'' INVALID_FORMAT)
   \<and> validatePayload \<lparr>cipherText = Some [], salt = Some ''AAAAAAAAAAAAAAAAAAAAAA=='',
                       iv = Some ''AAAAAAAAAAAAAAAA'', authTag = Some ''AAAAAAAAAAAAAAAAAAAAAA=='',
                       version = Some 999\<rparr>
     = Some (DecryptionError ''Unsupported encryption version: 999 (expected 1)''
               UNSUPPORTED_VERSION)
   \<and> validatePayload \<lparr>cipherText = Some [], salt = Some ''AAAAAAAAAAAAAAAAAAAAAA=='',
                       iv = Some ''AAAAAAAAAAAAAAAA'', authTag = Some ''AAAAAAAAAAAAAAAAAAAAAA=='',
                       version = Some 1\<rparr>
     = None"
  using validatePayload_order
    [of "\<lparr>cipherText = None, salt = None, iv = None, authTag = None, version = None\<rparr>"]
    validatePayload_order
    [of "\<lparr>cipherText = Some ''not-valid!!!'', salt = Some ''also-bad'',
                       iv = Some ''nope'', authTag = Some ''nah'', version = Some 1\<rparr>"]
    validatePayload_order
    [of "\<lparr>cipherText = Some [], salt = Some ''AAAAAAAAAAAAAAAAAAAAAA=='',
                       iv = Some ''AAAAAAAAAAAA'', authTag = Some ''AAAAAAAAAAAAAAAAAAAAAA=='',
                       version = Some 999\<rparr>"]
    validatePayload_order
    [of "\<lparr>cipherText = Some [], salt = Some ''AAAAAAAAAAAAAAAAAAAAAA=='',
                       iv = Some ''AAAAAAAAAAAAAAAA'', authTag = Some ''AAAAAAAAAAAAAAAAAAAAAA=='',
                       version = Some 999\<rparr>"]
    validatePayload_order
    [of "\<lparr>cipherText = Some [], salt = Some ''AAAAAAAAAAAAAAAAAAAAAA=='',
                       iv = Some ''AAAAAAAAAAAAAAAA'', authTag = Some ''AAAAAAAAAAAAAAAAAAAAAA=='',
                       version = Some 1\<rparr>"]
  by (simp add: not_valid_base64 valid_base64_samples decode_samples show_nat_9 show_int_999)

section \<open>Timing-safe comparison\<close>

lemma byte_xor_eq_0: "(x XOR y = 0) = (x = y)" for x y :: byte
proof
  assume "x XOR y = 0"
  then have "(x XOR y) XOR y = 0 XOR y" by simp
  then show "x = y" by (simp add: xor.assoc)
next
  assume "x = y" then show "x XOR y = 0" by simp
qed

lemma fold_or_xor_zero:
  "length a = length b \<Longrightarrow>
   (fold (\<lambda>(x, y) acc. acc OR (x XOR y)) (zip a b) (z :: byte) = 0) = (z = 0 \<and> a = b)"
proof (induction a b arbitrary: z rule: list_induct2)
  case Nil
  show ?case by simp
next
  case (Cons x xs y ys)
  then show ?case by (auto simp: or_eq_0_iff byte_xor_eq_0)
qed

lemma CRYPTO_memcmp_zero: "length a = length b \<Longrightarrow> (CRYPTO_memcmp a b = 0) = (a = b)"
  by (simp add: CRYPTO_memcmp_def fold_or_xor_zero)

text \<open>
  Claim C10.  \<open>timingSafeEqual\<close> is total: on buffers of different lengths it returns
  \<open>false\<close> where the primitive would throw its length error, and on buffers of equal
  length it returns \<open>true\<close> exactly when they are byte-identical.
\<close>

theorem timingSafeEqual_total:
  "timingSafeEqual a b = Inr (a = b)
   \<and> (length a \<noteq> length b \<longrightarrow>
        timingSafeEqual a b = Inr False
        \<and> crypto_timingSafeEqual a b = Inl (JsError ''Input buffers must have the same byte length''))
   \<and> (length a = length b \<longrightarrow> timingSafeEqual a b = Inr (a = b))"
proof -
  have "timingSafeEqual a b = Inr (a = b)"
  proof (cases "length a = length b")
    case True
    then show ?thesis
      by (simp add: timingSafeEqual_def crypto_timingSafeEqual_def CRYPTO_memcmp_zero)
  next
    case False
    then have "a \<noteq> b" by auto
    with False show ?thesis by (simp add: timingSafeEqual_def)
  qed
  then show ?thesis by (auto simp: crypto_timingSafeEqual_def)
qed

theorem timingSafeEqual_total_witness:
  "timingSafeEqual [1, 2, 3] [1, 2] = Inr False
   \<and> crypto_timingSafeEqual [1, 2, 3] [1, 2] = Inl (JsError ''Input buffers must have the same byte length'')
   \<and> timingSafeEqual [1, 2, 3] [1, 2, 3] = Inr True
   \<and> timingSafeEqual [1, 2, 3] [1, 2, 4] = Inr False"
  using timingSafeEqual_total [of "[1, 2, 3]" "[1, 2]"]
    timingSafeEqual_total [of "[1, 2, 3]" "[1, 2, 3]"]
    timingSafeEqual_total [of "[1, 2, 3]" "[1, 2, 4]"]
  by simp

section \<open>Encryption followed by decryption\<close>

lemma length_randomBytes: "length (fst (randomBytes n w)) = n"
  by (simp add: randomBytes_def)

lemma fst_randomBytes_calls [simp]:
  "fst (randomBytes n (w\<lparr>deriveKey_calls := m\<rparr>)) = fst (randomBytes n w)"
  by (simp add: randomBytes_def)

lemma entropy_randomBytes:
  "entropy (snd (randomBytes n w)) = (\<lambda>j. entropy w (j + n))"
  by (simp add: randomBytes_def)

text \<open>
  The result of a successful call that injects neither salt nor IV: the IV is the first
  12 bytes drawn, the salt the 16 bytes drawn next.
\<close>

lemma encryptBuffer_success:
  assumes len: "8 \<le> length W"
    and k: "pbkdf2 c W (fst (randomBytes SALT_LENGTH_BYTES (snd (randomBytes IV_LENGTH_BYTES w))))
           PBKDF2_ITERATIONS AES_KEY_LENGTH_BYTES PBKDF2_DIGEST = Inr k"
    and e: "aes_gcm_encrypt c k (fst (randomBytes IV_LENGTH_BYTES w)) GCM_AUTH_TAG_LENGTH_BYTES
           (normalizeInput input) = Inr (ct, t)"
  shows "fst (encryptBuffer c input \<lparr>password = W, opt_salt = None, opt_iv = None\<rparr> w) =
           Inr \<lparr>cipherText = Some (toBase64 ct),
                salt = Some (toBase64 (fst (randomBytes SALT_LENGTH_BYTES (snd (randomBytes IV_LENGTH_BYTES w))))),
                iv = Some (toBase64 (fst (randomBytes IV_LENGTH_BYTES w))),
                authTag = Some (toBase64 t),
                version = Some ENCRYPTION_FORMAT_VERSION\<rparr>"
proof -
  from len have W: "W \<noteq> []" by auto
  from len have v: "enc_validatePassword W = None"
    by (auto simp: enc_validatePassword_def)
  show ?thesis
    unfolding encryptBuffer_def generateIV_def
    using v k e W
    by (simp add: Let_def split_beta enc_deriveKey_def)
qed

lemma encryptBuffer_Inr_D:
  assumes "fst (encryptBuffer c input \<lparr>password = W, opt_salt = None, opt_iv = None\<rparr> w) = Inr sent"
  shows "\<exists>k ct t.
      pbkdf2 c W (fst (randomBytes SALT_LENGTH_BYTES (snd (randomBytes IV_LENGTH_BYTES w))))
        PBKDF2_ITERATIONS AES_KEY_LENGTH_BYTES PBKDF2_DIGEST = Inr k
      \<and> aes_gcm_encrypt c k (fst (randomBytes IV_LENGTH_BYTES w)) GCM_AUTH_TAG_LENGTH_BYTES
           (normalizeInput input) = Inr (ct, t)
      \<and> sent = \<lparr>cipherText = Some (toBase64 ct),
                 salt = Some (toBase64 (fst (randomBytes SALT_LENGTH_BYTES (snd (randomBytes IV_LENGTH_BYTES w))))),
                 iv = Some (toBase64 (fst (randomBytes IV_LENGTH_BYTES w))),
                 authTag = Some (toBase64 t),
                 version = Some ENCRYPTION_FORMAT_VERSION\<rparr>"
  using assms
  by (auto simp: encryptBuffer_def generateIV_def enc_deriveKey_def Let_def split_beta
      split: option.splits sum.splits if_splits)

lemma encryptBuffer_entropy:
  assumes "8 \<le> length W"
  shows "entropy (snd (encryptBuffer c input \<lparr>password = W, opt_salt = None, opt_iv = None\<rparr> w))
           = (\<lambda>j. entropy w (j + (IV_LENGTH_BYTES + SALT_LENGTH_BYTES)))"
proof -
  from assms have "W \<noteq> []" and "enc_validatePassword W = None"
    by (auto simp: enc_validatePassword_def)
  then show ?thesis
    by (auto simp: encryptBuffer_def generateIV_def enc_deriveKey_def Let_def split_beta
        randomBytes_def wipe_key_def ac_simps split: sum.splits)
qed

lemma encryptBuffer_empty_cipherText:
  assumes "gcm_length c"
    and "fst (encryptBuffer c input \<lparr>password = W, opt_salt = None, opt_iv = None\<rparr> w) = Inr p"
    and "normalizeInput input = []"
  shows "cipherText p = Some []"
proof -
  from encryptBuffer_Inr_D [OF assms(2)] obtain k ct t where
    e: "aes_gcm_encrypt c k (fst (randomBytes IV_LENGTH_BYTES w)) GCM_AUTH_TAG_LENGTH_BYTES
           (normalizeInput input) = Inr (ct, t)"
    and p: "cipherText p = Some (toBase64 ct)"
    by auto
  from assms(1) e have "length ct = length (normalizeInput input)"
    unfolding gcm_length_def by blast
  with assms(3) p show ?thesis by simp
qed

lemma decryptBuffer_result:
  assumes pw: "pw \<noteq> []"
    and v: "validatePayload
              \<lparr>cipherText = Some ct, salt = Some s, iv = Some i, authTag = Some t, version = Some n\<rparr> = None"
    and k: "pbkdf2 c pw (fromBase64 s) PBKDF2_ITERATIONS AES_KEY_LENGTH_BYTES PBKDF2_DIGEST = Inr k"
    and s: "fromBase64 s \<noteq> []"
  shows "fst (decryptBuffer c
            \<lparr>cipherText = Some ct, salt = Some s, iv = Some i, authTag = Some t, version = Some n\<rparr>
            \<lparr>dec_password = pw\<rparr> w) =
         (case aes_gcm_decrypt c k (fromBase64 i) GCM_AUTH_TAG_LENGTH_BYTES (fromBase64 t) (fromBase64 ct) of
            Inr plaintext \<Rightarrow> Inr \<lparr>data = plaintext, verified = True\<rparr>
          | Inl error \<Rightarrow> Inl (classify error))"
  using assms
  by (simp add: decryptBuffer_def dec_validatePassword_def dec_deriveKey_def Let_def)

lemma decryptBuffer_invalid:
  assumes "validatePayload payload = Some e"
  shows "\<exists>e'. decryptBuffer c payload options w = (Inl e', w)"
  using assms by (simp add: decryptBuffer_def split: option.splits)


lemma decryptBuffer_outcome:
  assumes v: "validatePayload payload = None" and pw: "dec_password options \<noteq> []"
    and f: "cipherText payload = Some ct" "salt payload = Some s" "iv payload = Some i"
           "authTag payload = Some t"
    and k: "pbkdf2 c (dec_password options) (fromBase64 s) PBKDF2_ITERATIONS AES_KEY_LENGTH_BYTES
              PBKDF2_DIGEST = Inr k"
  shows "decryptBuffer c payload options w =
           ((case aes_gcm_decrypt c k (fromBase64 i) GCM_AUTH_TAG_LENGTH_BYTES (fromBase64 t)
                   (fromBase64 ct) of
               Inr plaintext \<Rightarrow> Inr \<lparr>data = plaintext, verified = True\<rparr>
             | Inl error \<Rightarrow> Inl (classify error)),
            w\<lparr>deriveKey_calls := deriveKey_calls w + 1, key_mem := Some (secureWipe k)\<rparr>)"
  using v pw f k validatePayload_salt_nonempty [OF v f(2)]
  by (simp add: decryptBuffer_def dec_validatePassword_def dec_deriveKey_def Let_def wipe_key_def)

lemma classify_auth_failure:
  "classify auth_failure =
     DecryptionError ''Decryption failed: incorrect password or data has been tampered with.''
       WRONG_PASSWORD"
  by (simp add: classify_def auth_failure_def error_message_def)

text \<open>Decryption succeeds with any password whose derived key is the encrypting key.\<close>

lemma roundtrip_same_key:
  assumes gcm: "gcm_roundtrip c" and len: "8 \<le> length W" and W': "W' \<noteq> []"
    and k: "pbkdf2 c W (fst (randomBytes SALT_LENGTH_BYTES (snd (randomBytes IV_LENGTH_BYTES w))))
              PBKDF2_ITERATIONS AES_KEY_LENGTH_BYTES PBKDF2_DIGEST = Inr k"
    and k': "pbkdf2 c W' (fst (randomBytes SALT_LENGTH_BYTES (snd (randomBytes IV_LENGTH_BYTES w))))
              PBKDF2_ITERATIONS AES_KEY_LENGTH_BYTES PBKDF2_DIGEST = Inr k"
    and lk: "length k = AES_KEY_LENGTH_BYTES"
  shows "\<exists>payload.
           fst (encryptBuffer c input \<lparr>password = W, opt_salt = None, opt_iv = None\<rparr> w) = Inr payload
           \<and> (\<forall>w2. fst (decryptBuffer c payload \<lparr>dec_password = W'\<rparr> w2)
                     = Inr \<lparr>data = normalizeInput input, verified = True\<rparr>)"
proof -
  define ivb where "ivb = fst (randomBytes IV_LENGTH_BYTES w)"
  define sb where "sb = fst (randomBytes SALT_LENGTH_BYTES (snd (randomBytes IV_LENGTH_BYTES w)))"
  have livb: "length ivb = IV_LENGTH_BYTES" and lsb: "length sb = SALT_LENGTH_BYTES"
    by (simp_all add: ivb_def sb_def length_randomBytes)
  from gcm lk livb obtain ct t where
    e: "aes_gcm_encrypt c k ivb GCM_AUTH_TAG_LENGTH_BYTES (normalizeInput input) = Inr (ct, t)"
    and lt: "length t = GCM_AUTH_TAG_LENGTH_BYTES"
    and d: "aes_gcm_decrypt c k ivb GCM_AUTH_TAG_LENGTH_BYTES t ct = Inr (normalizeInput input)"
    unfolding gcm_roundtrip_def by blast
  let ?payload = "\<lparr>cipherText = Some (toBase64 ct), salt = Some (toBase64 sb),
                    iv = Some (toBase64 ivb), authTag = Some (toBase64 t),
                    version = Some ENCRYPTION_FORMAT_VERSION\<rparr>"
  have enc: "fst (encryptBuffer c input \<lparr>password = W, opt_salt = None, opt_iv = None\<rparr> w) = Inr ?payload"
    using encryptBuffer_success [OF len k e [unfolded ivb_def]]
    by (simp add: sb_def ivb_def)
  have v: "validatePayload ?payload = None"
    by (rule validatePayload_encoded [OF lsb livb lt])
  from lsb have sne: "fromBase64 (toBase64 sb) \<noteq> []"
    by (auto simp: fromBase64_toBase64 constants_defs)
  have dec: "fst (decryptBuffer c ?payload \<lparr>dec_password = W'\<rparr> w2)
               = Inr \<lparr>data = normalizeInput input, verified = True\<rparr>" for w2
    using decryptBuffer_result [OF W' v _ sne, of c k w2] k' d
    by (simp add: fromBase64_toBase64 sb_def)
  from enc dec show ?thesis by blast
qed

text \<open>
  The UTF-8 encoding on examples (\<open>h\<close>, \<open>U+00E9\<close>, \<open>U+20AC\<close> and \<open>U+1F510\<close>, which is
  the surrogate pair \<open>D83D DD10\<close>; a pair torn apart), and on ASCII text.
\<close>

lemma utf8_encode_sample:
  "utf8_encode [104, 233, 8364, 55357, 56592]
     = [104, 195, 169, 226, 130, 172, 240, 159, 148, 144]"
  by (simp add: utf8_bytes_def is_lead_def is_trail_def replacement_def)

lemma utf8_encode_lone_surrogates:
  "utf8_encode [55357, 104, 56592] = [239, 191, 189, 104, 239, 191, 189]"
  by (simp add: utf8_bytes_def is_lead_def is_trail_def replacement_def)

lemma utf8_encode_ascii:
  "\<forall>u \<in> set s. unat u < 128 \<Longrightarrow> utf8_encode s = map ucast s"
  by (induction s rule: utf8_encode.induct)
     (simp_all add: utf8_bytes_def is_lead_def is_trail_def)

text \<open>
  Claim C1.  For every plaintext \<open>P\<close>, the empty one included, and every password of at
  least 8 characters, \<open>decryptBuffer\<close> applied with the same password to what
  \<open>encryptBuffer\<close> returned for \<open>P\<close> (no salt or IV injected) succeeds and returns \<open>P\<close>
  with \<open>verified = true\<close>.  The plaintext \<open>P\<close> is the content of the input: the bytes of
  the \<open>Buffer\<close> or \<open>ArrayBuffer\<close>, the \<open>byteLength\<close> bytes from \<open>byteOffset\<close> on that a
  \<open>Uint8Array\<close> shows of its buffer, the UTF-8 encoding of a string.  Assumed of the
  primitives: PBKDF2 returns 32 bytes, and AES-256-GCM decryption inverts encryption and
  produces a 16-byte tag.
\<close>

theorem encrypt_then_decrypt:
  assumes kdf: "kdf_ok c" and gcm: "gcm_roundtrip c" and len: "8 \<le> length W"
    and input: "input = InBuffer P \<or> input = InArrayBuffer P
                \<or> (input = InUint8Array ab byteOffset n \<and> P = take n (drop byteOffset ab))
                \<or> (input = InString s \<and> P = utf8_encode s)"
  shows "\<exists>payload.
           fst (encryptBuffer c input \<lparr>password = W, opt_salt = None, opt_iv = None\<rparr> w) = Inr payload
           \<and> (\<forall>w2. fst (decryptBuffer c payload \<lparr>dec_password = W\<rparr> w2)
                     = Inr \<lparr>data = P, verified = True\<rparr>)"
proof -
  from kdf obtain k where
    k: "pbkdf2 c W (fst (randomBytes SALT_LENGTH_BYTES (snd (randomBytes IV_LENGTH_BYTES w))))
          PBKDF2_ITERATIONS AES_KEY_LENGTH_BYTES PBKDF2_DIGEST = Inr k"
    and lk: "length k = AES_KEY_LENGTH_BYTES"
    unfolding kdf_ok_def by blast
  from len have W: "W \<noteq> []" by auto
  from input have P: "normalizeInput input = P"
    by (auto simp: Buffer_from_view_def)
  from roundtrip_same_key [OF gcm len W k k lk, of input] P show ?thesis by simp
qed

section \<open>The instance at concrete inputs\<close>

lemma demo_kdf_ok: "kdf_ok demo_crypto"
  by (simp add: kdf_ok_def demo_crypto_def)

lemma demo_gcm_roundtrip: "gcm_roundtrip demo_crypto"
  by (simp add: gcm_roundtrip_def demo_crypto_def demo_init_def demo_tag_def constants_defs
      Let_def comp_def)

lemma demo_gcm_length: "gcm_length demo_crypto"
  unfolding gcm_length_def demo_crypto_def
  by (simp add: demo_init_def Let_def split: if_splits option.splits)


lemma demo_world_entropy: "entropy demo_world = (\<lambda>j. of_nat j)"
  by (simp add: demo_world_def)

lemma demo_iv: "fst (randomBytes IV_LENGTH_BYTES demo_world) = [0, 1, 2, 3, 4, 5, 6, 7, 8, 9, 10, 11]"
  by (simp add: randomBytes_def demo_world_def IV_LENGTH_BYTES_def eval_nat_numeral)

lemma demo_salt:
  "fst (randomBytes SALT_LENGTH_BYTES (snd (randomBytes IV_LENGTH_BYTES demo_world)))
     = [12, 13, 14, 15, 16, 17, 18, 19, 20, 21, 22, 23, 24, 25, 26, 27]"
  by (simp add: randomBytes_def demo_world_def IV_LENGTH_BYTES_def SALT_LENGTH_BYTES_def
      eval_nat_numeral)

lemma demo_second_draws:
  assumes "entropy w = (\<lambda>j. entropy demo_world (j + (IV_LENGTH_BYTES + SALT_LENGTH_BYTES)))"
  shows "fst (randomBytes IV_LENGTH_BYTES w) = [28, 29, 30, 31, 32, 33, 34, 35, 36, 37, 38, 39]"
    and "fst (randomBytes SALT_LENGTH_BYTES (snd (randomBytes IV_LENGTH_BYTES w)))
           = [40, 41, 42, 43, 44, 45, 46, 47, 48, 49, 50, 51, 52, 53, 54, 55]"
  using assms
  by (simp_all add: randomBytes_def demo_world_def IV_LENGTH_BYTES_def SALT_LENGTH_BYTES_def
      eval_nat_numeral)

lemma demo_key1:
  "pbkdf2 demo_crypto ''password1'' [12, 13, 14, 15, 16, 17, 18, 19, 20, 21, 22, 23, 24, 25, 26, 27]
     PBKDF2_ITERATIONS AES_KEY_LENGTH_BYTES PBKDF2_DIGEST = Inr (replicate 32 220)"
  by (simp add: demo_crypto_def AES_KEY_LENGTH_BYTES_def)

lemma demo_key2:
  "pbkdf2 demo_crypto ''password2'' [12, 13, 14, 15, 16, 17, 18, 19, 20, 21, 22, 23, 24, 25, 26, 27]
     PBKDF2_ITERATIONS AES_KEY_LENGTH_BYTES PBKDF2_DIGEST = Inr (replicate 32 221)"
  by (simp add: demo_crypto_def AES_KEY_LENGTH_BYTES_def)

lemma demo_key_short_salt:
  "pbkdf2 demo_crypto ''password1'' [1] PBKDF2_ITERATIONS AES_KEY_LENGTH_BYTES PBKDF2_DIGEST
     = Inr (replicate 32 165)"
  by (simp add: demo_crypto_def AES_KEY_LENGTH_BYTES_def)

lemma demo_encrypt123:
  "aes_gcm_encrypt demo_crypto (replicate 32 220) [0, 1, 2, 3, 4, 5, 6, 7, 8, 9, 10, 11]
     GCM_AUTH_TAG_LENGTH_BYTES [1, 2, 3] = Inr ([195, 196, 197], replicate 16 15)"
  by (simp add: demo_crypto_def demo_init_def demo_pad_def demo_tag_def
      GCM_AUTH_TAG_LENGTH_BYTES_def sum_list_replicate)

lemma demo_encrypt_empty_iv:
  "aes_gcm_encrypt demo_crypto (replicate 32 165) [] GCM_AUTH_TAG_LENGTH_BYTES
     (normalizeInput (InBuffer [1, 2, 3])) = Inl (JsError ''Invalid initialization vector'')"
  by (simp add: demo_crypto_def demo_init_def)

lemma demo_decrypt_wrong_key:
  "aes_gcm_decrypt demo_crypto (replicate 32 221) [0, 1, 2, 3, 4, 5, 6, 7, 8, 9, 10, 11]
     GCM_AUTH_TAG_LENGTH_BYTES (replicate 16 15) [195, 196, 197] = Inl auth_failure"
  by (simp add: demo_crypto_def demo_init_def demo_pad_def demo_tag_def
      GCM_AUTH_TAG_LENGTH_BYTES_def sum_list_replicate)

lemma replicate_16: "replicate 16 x = [x, x, x, x, x, x, x, x, x, x, x, x, x, x, x, x]"
  by (simp add: eval_nat_numeral)

lemma b64_ct: "toBase64 [195, 196, 197] = ''w8TF''"
  by (simp add: b64char_def char_of_eq_iff)

lemma b64_salt:
  "toBase64 [12, 13, 14, 15, 16, 17, 18, 19, 20, 21, 22, 23, 24, 25, 26, 27]
     = ''DA0ODxAREhMUFRYXGBkaGw==''"
  by (simp add: b64char_def char_of_eq_iff)

lemma b64_iv: "toBase64 [0, 1, 2, 3, 4, 5, 6, 7, 8, 9, 10, 11] = ''AAECAwQFBgcICQoL''"
  by (simp add: b64char_def char_of_eq_iff)

lemma b64_tag: "toBase64 (replicate 16 15) = ''Dw8PDw8PDw8PDw8PDw8PDw==''"
  by (simp add: replicate_16 b64char_def char_of_eq_iff)


lemma demo_decode:
  "fromBase64 ''w8TF'' = [195, 196, 197]"
  "fromBase64 ''DA0ODxAREhMUFRYXGBkaGw==''
     = [12, 13, 14, 15, 16, 17, 18, 19, 20, 21, 22, 23, 24, 25, 26, 27]"
  "fromBase64 ''AAECAwQFBgcICQoL'' = [0, 1, 2, 3, 4, 5, 6, 7, 8, 9, 10, 11]"
  "fromBase64 ''Dw8PDw8PDw8PDw8PDw8PDw=='' = replicate 16 15"
  using fromBase64_toBase64 [of "[195, 196, 197]"]
    fromBase64_toBase64 [of "[12, 13, 14, 15, 16, 17, 18, 19, 20, 21, 22, 23, 24, 25, 26, 27]"]
    fromBase64_toBase64 [of "[0, 1, 2, 3, 4, 5, 6, 7, 8, 9, 10, 11]"]
    fromBase64_toBase64 [of "replicate 16 15"]
  by (simp_all only: b64_ct b64_salt b64_iv b64_tag)

lemma demo_encryptBuffer:
  "fst (encryptBuffer demo_crypto (InBuffer [1, 2, 3])
          \<lparr>password = ''password1'', opt_salt = None, opt_iv = None\<rparr> demo_world)
   = Inr \<lparr>cipherText = Some ''w8TF'', salt = Some ''DA0ODxAREhMUFRYXGBkaGw=='',
          iv = Some ''AAECAwQFBgcICQoL'', authTag = Some ''Dw8PDw8PDw8PDw8PDw8PDw=='',
          version = Some 1\<rparr>"
proof -
  have len: "8 \<le> length ''password1''" by simp
  have e: "aes_gcm_encrypt demo_crypto (replicate 32 220) (fst (randomBytes IV_LENGTH_BYTES demo_world))
     GCM_AUTH_TAG_LENGTH_BYTES (normalizeInput (InBuffer [1, 2, 3])) = Inr ([195, 196, 197], replicate 16 15)"
    by (simp only: demo_iv normalizeInput.simps demo_encrypt123)
  have k: "pbkdf2 demo_crypto ''password1''
      (fst (randomBytes SALT_LENGTH_BYTES (snd (randomBytes IV_LENGTH_BYTES demo_world))))
      PBKDF2_ITERATIONS AES_KEY_LENGTH_BYTES PBKDF2_DIGEST = Inr (replicate 32 220)"
    by (simp only: demo_salt demo_key1)
  show ?thesis
    by (simp only: encryptBuffer_success [OF len k e] demo_iv demo_salt b64_ct b64_salt b64_iv
        b64_tag ENCRYPTION_FORMAT_VERSION_def)
qed


lemma demo_decrypt123:
  "aes_gcm_decrypt demo_crypto (replicate 32 220) [0, 1, 2, 3, 4, 5, 6, 7, 8, 9, 10, 11]
     GCM_AUTH_TAG_LENGTH_BYTES (replicate 16 15) [195, 196, 197] = Inr [1, 2, 3]"
  by (simp add: demo_crypto_def demo_init_def demo_pad_def demo_tag_def
      GCM_AUTH_TAG_LENGTH_BYTES_def sum_list_replicate)


lemma demo_decryptBufferRaw_v2:
  "decryptBufferRaw demo_crypto
     \<lparr>raw_cipherBytes = [162, 163, 164], raw_salt = [1], raw_iv = [1],
      raw_authTag = replicate 16 139, raw_version = 2\<rparr>
     \<lparr>dec_password = ''password1''\<rparr> demo_world
   = (Inr \<lparr>data = [1, 2, 3], verified = True\<rparr>,
      demo_world\<lparr>deriveKey_calls := 1, key_mem := Some (replicate 32 0)\<rparr>)"
  by (simp add: decryptBufferRaw_def dec_validatePassword_def dec_deriveKey_def Let_def
      demo_key_short_salt wipe_key_def secureWipe_def demo_world_def
      demo_crypto_def demo_init_def demo_pad_def demo_tag_def GCM_AUTH_TAG_LENGTH_BYTES_def
      AES_KEY_LENGTH_BYTES_def sum_list_replicate)

lemma demo_decryptFile_wrong_password:
  "fst (decryptFile demo_crypto demo_env ''/in/plain.txt.enc'' ''/out/plain.txt'' demo_metadata
          \<lparr>dec_password = ''password2''\<rparr> (demo_world\<lparr>files := demo_files\<rparr>))
   = Inl (DecryptionError
            ''Decryption failed: incorrect password or data has been tampered with.''
            WRONG_PASSWORD)"
  by (simp add: decryptFile_def dec_validatePassword_def existsSync_def isFile_def
      readFileSync_def demo_files_def demo_metadata_def demo_decode dec_deriveKey_def Let_def
      demo_key2 decryptFile_try_def demo_decrypt_wrong_key classify_auth_failure)
    (simp add: auth_failure_def classify_def error_message_def)

text \<open>
  Claim C1 at concrete inputs under \<open>password1\<close>: the bytes \<open>1, 2, 3\<close> with the payload
  they give, the empty plaintext, an \<open>ArrayBuffer\<close>, a \<open>Uint8Array\<close> showing three of five
  bytes, and a string with characters of one, two, three and four bytes.
\<close>

theorem encrypt_then_decrypt_witness:
  "kdf_ok demo_crypto \<and> gcm_roundtrip demo_crypto \<and> 8 \<le> length ''password1'' \<and>
   fst (encryptBuffer demo_crypto (InBuffer [1, 2, 3])
          \<lparr>password = ''password1'', opt_salt = None, opt_iv = None\<rparr> demo_world)
     = Inr \<lparr>cipherText = Some ''w8TF'', salt = Some ''DA0ODxAREhMUFRYXGBkaGw=='',
            iv = Some ''AAECAwQFBgcICQoL'', authTag = Some ''Dw8PDw8PDw8PDw8PDw8PDw=='',
            version = Some 1\<rparr> \<and>
   fst (decryptBuffer demo_crypto
          \<lparr>cipherText = Some ''w8TF'', salt = Some ''DA0ODxAREhMUFRYXGBkaGw=='',
           iv = Some ''AAECAwQFBgcICQoL'', authTag = Some ''Dw8PDw8PDw8PDw8PDw8PDw=='',
           version = Some 1\<rparr>
          \<lparr>dec_password = ''password1''\<rparr> demo_world)
     = Inr \<lparr>data = [1, 2, 3], verified = True\<rparr> \<and>
   (\<exists>payload.
      fst (encryptBuffer demo_crypto (InBuffer [])
             \<lparr>password = ''password1'', opt_salt = None, opt_iv = None\<rparr> demo_world) = Inr payload
      \<and> fst (decryptBuffer demo_crypto payload \<lparr>dec_password = ''password1''\<rparr> demo_world)
            = Inr \<lparr>data = [], verified = True\<rparr>) \<and>
   (\<exists>payload.
      fst (encryptBuffer demo_crypto (InArrayBuffer [7, 8])
             \<lparr>password = ''password1'', opt_salt = None, opt_iv = None\<rparr> demo_world) = Inr payload
      \<and> fst (decryptBuffer demo_crypto payload \<lparr>dec_password = ''password1''\<rparr> demo_world)
            = Inr \<lparr>data = [7, 8], verified = True\<rparr>) \<and>
   (\<exists>payload.
      fst (encryptBuffer demo_crypto (InUint8Array [9, 1, 2, 3, 9] 1 3)
             \<lparr>password = ''password1'', opt_salt = None, opt_iv = None\<rparr> demo_world) = Inr payload
      \<and> fst (decryptBuffer demo_crypto payload \<lparr>dec_password = ''password1''\<rparr> demo_world)
            = Inr \<lparr>data = [1, 2, 3], verified = True\<rparr>) \<and>
   (\<exists>payload.
      fst (encryptBuffer demo_crypto (InString [104, 233, 8364, 55357, 56592])
             \<lparr>password = ''password1'', opt_salt = None, opt_iv = None\<rparr> demo_world) = Inr payload
      \<and> fst (decryptBuffer demo_crypto payload \<lparr>dec_password = ''password1''\<rparr> demo_world)
            = Inr \<lparr>data = [104, 195, 169, 226, 130, 172, 240, 159, 148, 144], verified = True\<rparr>)"
proof -
  have len: "8 \<le> length ''password1''" by simp
  note rt = encrypt_then_decrypt [OF demo_kdf_ok demo_gcm_roundtrip len, where w = demo_world]
  from rt [of "InBuffer [1, 2, 3]" "[1, 2, 3]"]
  have a: "fst (decryptBuffer demo_crypto
          \<lparr>cipherText = Some ''w8TF'', salt = Some ''DA0ODxAREhMUFRYXGBkaGw=='',
           iv = Some ''AAECAwQFBgcICQoL'', authTag = Some ''Dw8PDw8PDw8PDw8PDw8PDw=='',
           version = Some 1\<rparr>
          \<lparr>dec_password = ''password1''\<rparr> demo_world)
     = Inr \<lparr>data = [1, 2, 3], verified = True\<rparr>"
    by (auto simp: demo_encryptBuffer)
  from rt [of "InBuffer []" "[]"]
  have b: "\<exists>payload.
      fst (encryptBuffer demo_crypto (InBuffer [])
             \<lparr>password = ''password1'', opt_salt = None, opt_iv = None\<rparr> demo_world) = Inr payload
      \<and> fst (decryptBuffer demo_crypto payload \<lparr>dec_password = ''password1''\<rparr> demo_world)
            = Inr \<lparr>data = [], verified = True\<rparr>"
    by blast
  from rt [of "InArrayBuffer [7, 8]" "[7, 8]"]
  have c: "\<exists>payload.
      fst (encryptBuffer demo_crypto (InArrayBuffer [7, 8])
             \<lparr>password = ''password1'', opt_salt = None, opt_iv = None\<rparr> demo_world) = Inr payload
      \<and> fst (decryptBuffer demo_crypto payload \<lparr>dec_password = ''password1''\<rparr> demo_world)
            = Inr \<lparr>data = [7, 8], verified = True\<rparr>"
    by blast
  have "[1, 2, 3] = take 3 (drop 1 [9, 1, 2, 3, 9 :: byte])" by simp
  with rt [of "InUint8Array [9, 1, 2, 3, 9] 1 3" "[1, 2, 3]" "[9, 1, 2, 3, 9]" 1 3]
  have d: "\<exists>payload.
      fst (encryptBuffer demo_crypto (InUint8Array [9, 1, 2, 3, 9] 1 3)
             \<lparr>password = ''password1'', opt_salt = None, opt_iv = None\<rparr> demo_world) = Inr payload
      \<and> fst (decryptBuffer demo_crypto payload \<lparr>dec_password = ''password1''\<rparr> demo_world)
            = Inr \<lparr>data = [1, 2, 3], verified = True\<rparr>"
    by blast
  have "[104, 195, 169, 226, 130, 172, 240, 159, 148, 144]
      = utf8_encode [104, 233, 8364, 55357, 56592]"
    by (simp only: utf8_encode_sample)
  with rt [of "InString [104, 233, 8364, 55357, 56592]"
      "[104, 195, 169, 226, 130, 172, 240, 159, 148, 144]" _ _ _
      "[104, 233, 8364, 55357, 56592]"]
  have e: "\<exists>payload.
      fst (encryptBuffer demo_crypto (InString [104, 233, 8364, 55357, 56592])
             \<lparr>password = ''password1'', opt_salt = None, opt_iv = None\<rparr> demo_world) = Inr payload
      \<and> fst (decryptBuffer demo_crypto payload \<lparr>dec_password = ''password1''\<rparr> demo_world)
            = Inr \<lparr>data = [104, 195, 169, 226, 130, 172, 240, 159, 148, 144], verified = True\<rparr>"
    by blast
  from demo_kdf_ok demo_gcm_roundtrip len demo_encryptBuffer a b c d e show ?thesis by blast
qed

section \<open>Wrong passwords and altered payloads\<close>













section \<open>The key buffer\<close>

text \<open>
  Claim C3 says the derived key is zeroed on every exit of \<open>encryptBuffer\<close>.  The code
  wipes it only after a successful encryption: when the AES-GCM step throws, the error
  leaves the function with the key still in memory.
\<close>

theorem encryptBuffer_key_survives_throw:
  assumes "8 \<le> length W"
    and "pbkdf2 c W s PBKDF2_ITERATIONS AES_KEY_LENGTH_BYTES PBKDF2_DIGEST = Inr k"
    and "aes_gcm_encrypt c k i GCM_AUTH_TAG_LENGTH_BYTES (normalizeInput input) = Inl err"
  shows "fst (encryptBuffer c input \<lparr>password = W, opt_salt = Some s, opt_iv = Some i\<rparr> w) = Inl err
       \<and> key_mem (snd (encryptBuffer c input \<lparr>password = W, opt_salt = Some s, opt_iv = Some i\<rparr> w))
           = Some k"
proof -
  from assms(1) have "W \<noteq> []" and "enc_validatePassword W = None"
    by (auto simp: enc_validatePassword_def)
  with assms(2,3) show ?thesis
    by (simp add: encryptBuffer_def enc_deriveKey_def Let_def)
qed

text \<open>
  An empty injected IV makes cipher creation throw; the 32 key bytes are still in the
  buffer afterwards.
\<close>

theorem encryptBuffer_key_survives_throw_witness:
  "8 \<le> length ''password1'' \<and>
   fst (encryptBuffer demo_crypto (InBuffer [1, 2, 3])
          \<lparr>password = ''password1'', opt_salt = Some [1], opt_iv = Some []\<rparr> demo_world)
     = Inl (JsError ''Invalid initialization vector'') \<and>
   key_mem (snd (encryptBuffer demo_crypto (InBuffer [1, 2, 3])
          \<lparr>password = ''password1'', opt_salt = Some [1], opt_iv = Some []\<rparr> demo_world))
     = Some (replicate 32 165) \<and>
   secureWipe (replicate 32 165) \<noteq> replicate 32 165"
proof -
  have len: "8 \<le> length ''password1''" by simp
  have "secureWipe (replicate 32 (165 :: byte)) \<noteq> replicate 32 165"
    by (simp add: secureWipe_def replicate_eq_replicate)
  with encryptBuffer_key_survives_throw [OF len demo_key_short_salt demo_encrypt_empty_iv, of demo_world]
    len show ?thesis by blast
qed

text \<open>
  \<open>decryptBuffer\<close> has the \<open>finally\<close> block \<open>encryptBuffer\<close> lacks: once the key is
  derived, every exit leaves it wiped.
\<close>

lemma decryptBuffer_wipes_key:
  assumes "validatePayload payload = None" and "dec_password options \<noteq> []"
    and "salt payload = Some s"
    and "pbkdf2 c (dec_password options) (fromBase64 s) PBKDF2_ITERATIONS AES_KEY_LENGTH_BYTES
           PBKDF2_DIGEST = Inr k"
  shows "key_mem (snd (decryptBuffer c payload options w)) = Some (replicate (length k) 0)"
proof -
  from assms(1) obtain ct i t where "cipherText payload = Some ct" "iv payload = Some i"
    "authTag payload = Some t"
    by (auto simp: validatePayload_def requiredFields_def field_absent_def split: option.splits if_splits)
  from decryptBuffer_outcome [OF assms(1,2) this(1) assms(3) this(2,3) assms(4), of w]
  show ?thesis by (simp add: secureWipe_def)
qed

section \<open>Validation and key derivation\<close>

lemma deriveKey_calls_dec_deriveKey:
  "deriveKey_calls (snd (dec_deriveKey c pw s w)) = deriveKey_calls w + 1"
  by (simp add: dec_deriveKey_def Let_def split: sum.splits)

lemma deriveKey_calls_wipe_key [simp]: "deriveKey_calls (wipe_key w) = deriveKey_calls w"
  by (simp add: wipe_key_def)

lemma decryptBufferRaw_calls:
  "dec_password options \<noteq> [] \<Longrightarrow>
   deriveKey_calls (snd (decryptBufferRaw c rawp options w)) = deriveKey_calls w + 1"
  using deriveKey_calls_dec_deriveKey [of c "dec_password options" "raw_salt rawp" w]
  by (auto simp: decryptBufferRaw_def dec_validatePassword_def split: prod.splits sum.splits)

lemma isFile_exists: "isFile fs p \<Longrightarrow> existsSync fs p"
  by (auto simp: isFile_def existsSync_def split: option.splits)

lemma isFile_read: "isFile fs p \<Longrightarrow> \<exists>b. readFileSync fs p = Inr b"
  by (auto simp: isFile_def readFileSync_def split: option.splits node.splits)

lemma decryptFile_calls:
  assumes "dec_password options \<noteq> []" and "isFile (files w) inputPath"
  shows "deriveKey_calls (snd (decryptFile c env inputPath outputPath metadata options w))
           = deriveKey_calls w + 1"
proof -
  from assms(2) obtain b where b: "readFileSync (files w) inputPath = Inr b"
    using isFile_read by blast
  show ?thesis
    using assms b isFile_exists [OF assms(2)]
      deriveKey_calls_dec_deriveKey [of c "dec_password options" "fromBase64 (md_salt metadata)" w]
    by (auto simp: decryptFile_def dec_validatePassword_def Let_def split: prod.splits sum.splits)
qed

lemma decryptFileStream_setup_calls:
  assumes "dec_password options \<noteq> []" and "isFile (files w) inputPath"
  shows "deriveKey_calls (snd (decryptFileStream_setup c env inputPath outputPath metadata options w))
           = deriveKey_calls w + 1"
  using assms isFile_exists [OF assms(2)]
    deriveKey_calls_dec_deriveKey [of c "dec_password options" "fromBase64 (md_salt metadata)" w]
  by (auto simp: decryptFileStream_setup_def dec_validatePassword_def Let_def split_beta
      split: prod.splits sum.splits option.splits)

text \<open>
  Claim C4 says every decrypt entry point rejects a record of a foreign version before
  \<open>deriveKey\<close> is invoked.  \<open>decryptBufferRaw\<close> never reads the \<open>version\<close> its payload
  carries: a raw payload of version 2 is decrypted, and \<open>deriveKey\<close> is called for it.
\<close>

theorem decryptBufferRaw_ignores_version:
  "raw_version \<lparr>raw_cipherBytes = [162, 163, 164], raw_salt = [1], raw_iv = [1],
                 raw_authTag = replicate 16 139, raw_version = 2\<rparr> \<noteq> ENCRYPTION_FORMAT_VERSION
   \<and> fst (decryptBufferRaw demo_crypto
            \<lparr>raw_cipherBytes = [162, 163, 164], raw_salt = [1], raw_iv = [1],
             raw_authTag = replicate 16 139, raw_version = 2\<rparr>
            \<lparr>dec_password = ''password1''\<rparr> demo_world)
       = Inr \<lparr>data = [1, 2, 3], verified = True\<rparr>
   \<and> deriveKey_calls demo_world = 0
   \<and> deriveKey_calls (snd (decryptBufferRaw demo_crypto
            \<lparr>raw_cipherBytes = [162, 163, 164], raw_salt = [1], raw_iv = [1],
             raw_authTag = replicate 16 139, raw_version = 2\<rparr>
            \<lparr>dec_password = ''password1''\<rparr> demo_world)) = 1"
  by (simp add: demo_decryptBufferRaw_v2 ENCRYPTION_FORMAT_VERSION_def) (simp add: demo_world_def)

text \<open>
  Claim C4 on the four entry points.  \<open>decryptBuffer\<close> runs the payload validator before
  key derivation: a payload the validator rejects, in particular one whose version is not
  the supported one, is rejected with the state unchanged, so without any call of
  \<open>deriveKey\<close>.  The check is missing in \<open>decryptBufferRaw\<close>, \<open>decryptFile\<close> and
  \<open>decryptFileStream\<close>: given a non-empty password (and, for the file variants, an
  existing input file) they call \<open>deriveKey\<close> once, whatever the version of the record.
\<close>

theorem validation_before_derivation:
  "(validatePayload payload \<noteq> None \<longrightarrow>
      (\<exists>err. decryptBuffer c payload options w = (Inl err, w)))
   \<and> (version payload \<noteq> Some ENCRYPTION_FORMAT_VERSION \<longrightarrow> validatePayload payload \<noteq> None)
   \<and> (dec_password options \<noteq> [] \<longrightarrow>
        deriveKey_calls (snd (decryptBufferRaw c rawp options w)) = deriveKey_calls w + 1)
   \<and> (dec_password options \<noteq> [] \<and> isFile (files w) inputPath \<longrightarrow>
        deriveKey_calls (snd (decryptFile c env inputPath outputPath metadata options w))
          = deriveKey_calls w + 1
        \<and> deriveKey_calls
            (snd (decryptFileStream_setup c env inputPath outputPath metadata options w))
          = deriveKey_calls w + 1)"
  using decryptBuffer_invalid [of payload _ c options w] version_checked [of payload]
    decryptBufferRaw_calls [of options c rawp w]
    decryptFile_calls [of options w inputPath c env outputPath metadata]
    decryptFileStream_setup_calls [of options w inputPath c env outputPath metadata]
  by auto

text \<open>The four entry points on records of version 999.\<close>

theorem validation_before_derivation_witness:
  "(\<exists>err. decryptBuffer demo_crypto
             \<lparr>cipherText = Some ''w8TF'', salt = Some ''DA0ODxAREhMUFRYXGBkaGw=='',
              iv = Some ''AAECAwQFBgcICQoL'', authTag = Some ''Dw8PDw8PDw8PDw8PDw8PDw=='',
              version = Some 999\<rparr>
             \<lparr>dec_password = ''password1''\<rparr> demo_world = (Inl err, demo_world))
   \<and> deriveKey_calls (snd (decryptBufferRaw demo_crypto
            \<lparr>raw_cipherBytes = [162, 163, 164], raw_salt = [1], raw_iv = [1],
             raw_authTag = replicate 16 139, raw_version = 999\<rparr>
            \<lparr>dec_password = ''password1''\<rparr> demo_world)) = deriveKey_calls demo_world + 1
   \<and> deriveKey_calls (snd (decryptFile demo_crypto demo_env ''/in/plain.txt.enc''
            ''/out/plain.txt'' (demo_metadata\<lparr>md_version := 999\<rparr>)
            \<lparr>dec_password = ''password1''\<rparr> (demo_world\<lparr>files := demo_files\<rparr>)))
       = deriveKey_calls (demo_world\<lparr>files := demo_files\<rparr>) + 1
   \<and> deriveKey_calls (snd (decryptFileStream_setup demo_crypto demo_env ''/in/plain.txt.enc''
            ''/out/plain.txt'' (demo_metadata\<lparr>md_version := 999\<rparr>)
            \<lparr>dec_password = ''password1''\<rparr> (demo_world\<lparr>files := demo_files\<rparr>)))
       = deriveKey_calls (demo_world\<lparr>files := demo_files\<rparr>) + 1"
proof -
  let ?p = "\<lparr>cipherText = Some ''w8TF'', salt = Some ''DA0ODxAREhMUFRYXGBkaGw=='',
              iv = Some ''AAECAwQFBgcICQoL'', authTag = Some ''Dw8PDw8PDw8PDw8PDw8PDw=='',
              version = Some 999\<rparr>"
  let ?raw = "\<lparr>raw_cipherBytes = [162, 163, 164], raw_salt = [1], raw_iv = [1],
             raw_authTag = replicate 16 139, raw_version = 999\<rparr>"
  let ?o = "\<lparr>dec_password = ''password1''\<rparr>"
  have v: "version ?p \<noteq> Some ENCRYPTION_FORMAT_VERSION"
    by (simp add: ENCRYPTION_FORMAT_VERSION_def)
  have pw: "dec_password ?o \<noteq> []" by simp
  have f: "isFile (files (demo_world\<lparr>files := demo_files\<rparr>)) ''/in/plain.txt.enc''"
    by (simp add: isFile_def demo_files_def)
  note a = validation_before_derivation [of ?p demo_crypto ?o demo_world ?raw]
  note b = validation_before_derivation [of ?p demo_crypto ?o "demo_world\<lparr>files := demo_files\<rparr>"
      ?raw "''/in/plain.txt.enc''" demo_env "''/out/plain.txt''" "demo_metadata\<lparr>md_version := 999\<rparr>"]
  from a v have 1: "\<exists>err. decryptBuffer demo_crypto ?p ?o demo_world = (Inl err, demo_world)"
    by blast
  from a pw have 2: "deriveKey_calls (snd (decryptBufferRaw demo_crypto ?raw ?o demo_world))
      = deriveKey_calls demo_world + 1"
    by blast
  from b pw f have 3: "deriveKey_calls (snd (decryptFile demo_crypto demo_env ''/in/plain.txt.enc''
            ''/out/plain.txt'' (demo_metadata\<lparr>md_version := 999\<rparr>) ?o
            (demo_world\<lparr>files := demo_files\<rparr>)))
       = deriveKey_calls (demo_world\<lparr>files := demo_files\<rparr>) + 1"
    and 4: "deriveKey_calls (snd (decryptFileStream_setup demo_crypto demo_env ''/in/plain.txt.enc''
            ''/out/plain.txt'' (demo_metadata\<lparr>md_version := 999\<rparr>) ?o
            (demo_world\<lparr>files := demo_files\<rparr>)))
       = deriveKey_calls (demo_world\<lparr>files := demo_files\<rparr>) + 1"
    by blast+
  from 1 2 3 4 show ?thesis by blast
qed

section \<open>Randomness of a call\<close>

text \<open>
  Claim C7 as stated does not hold: it asks that the \<open>cipherText\<close> of two calls differs
  for every plaintext.  For the empty plaintext the ciphertext is empty, so both calls
  return the same \<open>cipherText\<close>, for the instance above and for every primitive whose
  ciphertext is as long as the plaintext.
\<close>

theorem empty_plaintext_same_cipherText:
  "(\<exists>p1 p2.
      fst (encryptBuffer demo_crypto (InBuffer [])
             \<lparr>password = ''password1'', opt_salt = None, opt_iv = None\<rparr> demo_world) = Inr p1
    \<and> fst (encryptBuffer demo_crypto (InBuffer [])
             \<lparr>password = ''password1'', opt_salt = None, opt_iv = None\<rparr>
             (snd (encryptBuffer demo_crypto (InBuffer [])
                     \<lparr>password = ''password1'', opt_salt = None, opt_iv = None\<rparr> demo_world)))
        = Inr p2
    \<and> cipherText p1 = cipherText p2)
   \<and> \<not> (\<exists>c w1 w2 p1 p2. gcm_length c
        \<and> fst (encryptBuffer c (InBuffer [])
                 \<lparr>password = ''password1'', opt_salt = None, opt_iv = None\<rparr> w1) = Inr p1
        \<and> fst (encryptBuffer c (InBuffer [])
                 \<lparr>password = ''password1'', opt_salt = None, opt_iv = None\<rparr> w2) = Inr p2
        \<and> cipherText p1 \<noteq> cipherText p2)"
proof (intro conjI notI)
  have len: "8 \<le> length ''password1''" by simp
  let ?o = "\<lparr>password = ''password1'', opt_salt = None, opt_iv = None\<rparr>"
  let ?w2 = "snd (encryptBuffer demo_crypto (InBuffer []) ?o demo_world)"
  have W: "''password1'' \<noteq> []" by simp
  have ex: "\<exists>p. fst (encryptBuffer demo_crypto (InBuffer []) ?o w) = Inr p" for w
  proof -
    from demo_kdf_ok obtain k where
      k: "pbkdf2 demo_crypto ''password1''
            (fst (randomBytes SALT_LENGTH_BYTES (snd (randomBytes IV_LENGTH_BYTES w))))
            PBKDF2_ITERATIONS AES_KEY_LENGTH_BYTES PBKDF2_DIGEST = Inr k"
      and lk: "length k = AES_KEY_LENGTH_BYTES"
      unfolding kdf_ok_def by blast
    from roundtrip_same_key [OF demo_gcm_roundtrip len W k k lk] show ?thesis by blast
  qed
  from ex [of demo_world] obtain p1 where
    p1: "fst (encryptBuffer demo_crypto (InBuffer []) ?o demo_world) = Inr p1" ..
  from ex [of ?w2] obtain p2 where
    p2: "fst (encryptBuffer demo_crypto (InBuffer []) ?o ?w2) = Inr p2" ..
  have "cipherText p1 = Some []" "cipherText p2 = Some []"
    using encryptBuffer_empty_cipherText [OF demo_gcm_length p1]
      encryptBuffer_empty_cipherText [OF demo_gcm_length p2] by simp_all
  with p1 p2 show "\<exists>p1 p2.
      fst (encryptBuffer demo_crypto (InBuffer []) ?o demo_world) = Inr p1
    \<and> fst (encryptBuffer demo_crypto (InBuffer []) ?o ?w2) = Inr p2
    \<and> cipherText p1 = cipherText p2"
    by auto
next
  assume "\<exists>c w1 w2 p1 p2. gcm_length c
        \<and> fst (encryptBuffer c (InBuffer [])
                 \<lparr>password = ''password1'', opt_salt = None, opt_iv = None\<rparr> w1) = Inr p1
        \<and> fst (encryptBuffer c (InBuffer [])
                 \<lparr>password = ''password1'', opt_salt = None, opt_iv = None\<rparr> w2) = Inr p2
        \<and> cipherText p1 \<noteq> cipherText p2"
  then obtain c w1 w2 p1 p2 where g: "gcm_length c"
    and p1: "fst (encryptBuffer c (InBuffer [])
                 \<lparr>password = ''password1'', opt_salt = None, opt_iv = None\<rparr> w1) = Inr p1"
    and p2: "fst (encryptBuffer c (InBuffer [])
                 \<lparr>password = ''password1'', opt_salt = None, opt_iv = None\<rparr> w2) = Inr p2"
    and ne: "cipherText p1 \<noteq> cipherText p2"
    by blast
  from encryptBuffer_empty_cipherText [OF g p1] encryptBuffer_empty_cipherText [OF g p2] ne
  show False by simp
qed

text \<open>
  Claim C7, amended.  Two calls of \<open>encryptBuffer\<close> with no injected salt or IV each draw
  a fresh 12-byte IV and then a fresh 16-byte salt from the random source and return
  their base-64 encodings: the \<open>iv\<close> (the \<open>salt\<close>) fields of the two payloads differ
  exactly when the two draws differ, and a call consumes its 28 bytes, so that the next
  call draws new ones.  The \<open>cipherText\<close> fields need not differ: for the empty
  plaintext both are the empty string.
\<close>

theorem encryptBuffer_fresh_draws:
  assumes kdf: "kdf_ok c" and gcm: "gcm_roundtrip c" and len: "8 \<le> length W"
  shows "\<exists>p1 p2.
      fst (encryptBuffer c input \<lparr>password = W, opt_salt = None, opt_iv = None\<rparr> w1) = Inr p1
    \<and> fst (encryptBuffer c input \<lparr>password = W, opt_salt = None, opt_iv = None\<rparr> w2) = Inr p2
    \<and> iv p1 = Some (toBase64 (fst (randomBytes IV_LENGTH_BYTES w1)))
    \<and> iv p2 = Some (toBase64 (fst (randomBytes IV_LENGTH_BYTES w2)))
    \<and> salt p1 = Some (toBase64 (fst (randomBytes SALT_LENGTH_BYTES (snd (randomBytes IV_LENGTH_BYTES w1)))))
    \<and> salt p2 = Some (toBase64 (fst (randomBytes SALT_LENGTH_BYTES (snd (randomBytes IV_LENGTH_BYTES w2)))))
    \<and> ((iv p1 \<noteq> iv p2) =
         (fst (randomBytes IV_LENGTH_BYTES w1) \<noteq> fst (randomBytes IV_LENGTH_BYTES w2)))
    \<and> ((salt p1 \<noteq> salt p2) =
         (fst (randomBytes SALT_LENGTH_BYTES (snd (randomBytes IV_LENGTH_BYTES w1)))
            \<noteq> fst (randomBytes SALT_LENGTH_BYTES (snd (randomBytes IV_LENGTH_BYTES w2)))))
    \<and> (gcm_length c \<and> normalizeInput input = [] \<longrightarrow>
          cipherText p1 = Some [] \<and> cipherText p2 = Some [])
    \<and> entropy (snd (encryptBuffer c input \<lparr>password = W, opt_salt = None, opt_iv = None\<rparr> w1))
         = (\<lambda>j. entropy w1 (j + (IV_LENGTH_BYTES + SALT_LENGTH_BYTES)))"
proof -
  from len have W: "W \<noteq> []" by auto
  have ex: "\<exists>p. fst (encryptBuffer c input \<lparr>password = W, opt_salt = None, opt_iv = None\<rparr> w) = Inr p" for w
  proof -
    from kdf obtain k where
      k: "pbkdf2 c W (fst (randomBytes SALT_LENGTH_BYTES (snd (randomBytes IV_LENGTH_BYTES w))))
            PBKDF2_ITERATIONS AES_KEY_LENGTH_BYTES PBKDF2_DIGEST = Inr k"
      and lk: "length k = AES_KEY_LENGTH_BYTES"
      unfolding kdf_ok_def by blast
    from roundtrip_same_key [OF gcm len W k k lk] show ?thesis by blast
  qed
  from ex [of w1] obtain p1 where
    p1: "fst (encryptBuffer c input \<lparr>password = W, opt_salt = None, opt_iv = None\<rparr> w1) = Inr p1" ..
  from ex [of w2] obtain p2 where
    p2: "fst (encryptBuffer c input \<lparr>password = W, opt_salt = None, opt_iv = None\<rparr> w2) = Inr p2" ..
  from encryptBuffer_Inr_D [OF p1] have
    f1: "iv p1 = Some (toBase64 (fst (randomBytes IV_LENGTH_BYTES w1)))"
      "salt p1 = Some (toBase64 (fst (randomBytes SALT_LENGTH_BYTES (snd (randomBytes IV_LENGTH_BYTES w1)))))"
    by auto
  from encryptBuffer_Inr_D [OF p2] have
    f2: "iv p2 = Some (toBase64 (fst (randomBytes IV_LENGTH_BYTES w2)))"
      "salt p2 = Some (toBase64 (fst (randomBytes SALT_LENGTH_BYTES (snd (randomBytes IV_LENGTH_BYTES w2)))))"
    by auto
  have ct: "gcm_length c \<and> normalizeInput input = [] \<longrightarrow>
          cipherText p1 = Some [] \<and> cipherText p2 = Some []"
    using encryptBuffer_empty_cipherText [OF _ p1] encryptBuffer_empty_cipherText [OF _ p2]
    by blast
  from p1 p2 f1 f2 ct encryptBuffer_entropy [OF len, of c input w1]
  show ?thesis
    by (intro exI [of _ p1] exI [of _ p2]) (simp add: toBase64_inj)
qed

text \<open>Two consecutive calls on the empty plaintext.\<close>

theorem encryptBuffer_fresh_draws_witness:
  "kdf_ok demo_crypto \<and> gcm_roundtrip demo_crypto \<and> gcm_length demo_crypto \<and>
   8 \<le> length ''password1'' \<and>
   (\<exists>p1 p2.
      fst (encryptBuffer demo_crypto (InBuffer [])
             \<lparr>password = ''password1'', opt_salt = None, opt_iv = None\<rparr> demo_world) = Inr p1
    \<and> fst (encryptBuffer demo_crypto (InBuffer [])
             \<lparr>password = ''password1'', opt_salt = None, opt_iv = None\<rparr>
             (snd (encryptBuffer demo_crypto (InBuffer [])
                     \<lparr>password = ''password1'', opt_salt = None, opt_iv = None\<rparr> demo_world)))
        = Inr p2
    \<and> iv p1 \<noteq> iv p2 \<and> salt p1 \<noteq> salt p2
    \<and> cipherText p1 = Some [] \<and> cipherText p2 = Some [])"
proof -
  have len: "8 \<le> length ''password1''" by simp
  let ?o = "\<lparr>password = ''password1'', opt_salt = None, opt_iv = None\<rparr>"
  let ?w2 = "snd (encryptBuffer demo_crypto (InBuffer []) ?o demo_world)"
  from encryptBuffer_fresh_draws [OF demo_kdf_ok demo_gcm_roundtrip len, of "InBuffer []" demo_world ?w2]
  obtain p1 p2 where
    p: "fst (encryptBuffer demo_crypto (InBuffer []) ?o demo_world) = Inr p1"
      "fst (encryptBuffer demo_crypto (InBuffer []) ?o ?w2) = Inr p2"
    and i: "(iv p1 \<noteq> iv p2) =
         (fst (randomBytes IV_LENGTH_BYTES demo_world) \<noteq> fst (randomBytes IV_LENGTH_BYTES ?w2))"
    and s: "(salt p1 \<noteq> salt p2) =
         (fst (randomBytes SALT_LENGTH_BYTES (snd (randomBytes IV_LENGTH_BYTES demo_world)))
            \<noteq> fst (randomBytes SALT_LENGTH_BYTES (snd (randomBytes IV_LENGTH_BYTES ?w2))))"
    and c: "gcm_length demo_crypto \<and> normalizeInput (InBuffer []) = [] \<longrightarrow>
          cipherText p1 = Some [] \<and> cipherText p2 = Some []"
    and e: "entropy ?w2 = (\<lambda>j. entropy demo_world (j + (IV_LENGTH_BYTES + SALT_LENGTH_BYTES)))"
    by blast
  from i have "iv p1 \<noteq> iv p2" by (simp add: demo_iv demo_second_draws [OF e])
  moreover from s have "salt p1 \<noteq> salt p2" by (simp add: demo_salt demo_second_draws [OF e])
  moreover from c demo_gcm_length have "cipherText p1 = Some [] \<and> cipherText p2 = Some []" by simp
  ultimately show ?thesis
    using p demo_kdf_ok demo_gcm_roundtrip demo_gcm_length len by blast
qed

section \<open>Key derivation\<close>








section \<open>Whole-file decryption: the clean-up\<close>

lemma decryptFile_try_failure_keeps_file:
  assumes "decryptFile_try c env outputPath metadata k i t cb fs = (Inl e, fs1)"
    and "fs outputPath = Some (File old)"
  shows "\<exists>b. fs1 outputPath = Some (File b)"
  using assms
  by (auto simp: decryptFile_try_def Let_def mkdirSync_def writeFileSync_def existsSync_def
      split: sum.splits option.splits node.splits if_splits prod.splits)

lemma cleanup_output_file: "fs p = Some (File b) \<Longrightarrow> cleanup_output fs p p = None"
  by (simp add: cleanup_output_def existsSync_def unlinkSync_def)

text \<open>
  Claim C9.  When \<open>decryptFile\<close> fails after its key derivation, the clean-up of its
  \<open>catch\<close> block deletes the file at \<open>outputPath\<close> also when that file was there before
  the call: a failed \<open>decryptFile\<close> removes a pre-existing file at \<open>outputPath\<close>.
\<close>

theorem decryptFile_failure_removes_existing_output:
  assumes pw: "dec_password options \<noteq> []"
    and inp: "files w inputPath = Some (File cipherBytes)"
    and out: "files w outputPath = Some (File old)"
    and salt: "fromBase64 (md_salt metadata) \<noteq> []"
    and k: "pbkdf2 c (dec_password options) (fromBase64 (md_salt metadata)) PBKDF2_ITERATIONS
              AES_KEY_LENGTH_BYTES PBKDF2_DIGEST = Inr k"
    and fail: "fst (decryptFile c env inputPath outputPath metadata options w) = Inl err"
  shows "files (snd (decryptFile c env inputPath outputPath metadata options w)) outputPath = None"
proof -
  define w1 where "w1 = w\<lparr>deriveKey_calls := deriveKey_calls w + 1, key_mem := Some k\<rparr>"
  have dk: "dec_deriveKey c (dec_password options) (fromBase64 (md_salt metadata)) w
      = (Inr \<lparr>dk_key = k, dk_salt = fromBase64 (md_salt metadata), dk_iterations = PBKDF2_ITERATIONS\<rparr>, w1)"
    using pw salt k by (simp add: dec_deriveKey_def Let_def w1_def)
  have pre: "dec_validatePassword (dec_password options) = None" "existsSync (files w) inputPath"
    "isFile (files w) inputPath" "readFileSync (files w) inputPath = Inr cipherBytes"
    using pw inp by (simp_all add: dec_validatePassword_def existsSync_def isFile_def readFileSync_def)
  obtain r fs1 where t: "decryptFile_try c env outputPath metadata k (fromBase64 (md_iv metadata))
      (fromBase64 (md_authTag metadata)) cipherBytes (files w1) = (r, fs1)"
    by (cases "decryptFile_try c env outputPath metadata k (fromBase64 (md_iv metadata))
      (fromBase64 (md_authTag metadata)) cipherBytes (files w1)") auto
  show ?thesis
  proof (cases r)
    case (Inr res)
    with pre dk t fail show ?thesis by (simp add: decryptFile_def Let_def)
  next
    case (Inl e)
    have "files w1 outputPath = Some (File old)" using out by (simp add: w1_def)
    from decryptFile_try_failure_keeps_file [OF t [unfolded Inl] this]
    obtain b where "fs1 outputPath = Some (File b)" ..
    then have "cleanup_output fs1 outputPath outputPath = None" by (rule cleanup_output_file)
    with pre dk t Inl show ?thesis
      by (simp add: decryptFile_def Let_def wipe_key_def)
  qed
qed

text \<open>
  A wrong password: nothing was written, and the file that was at the output path is
  gone.
\<close>

theorem decryptFile_failure_removes_existing_output_witness:
  "files (demo_world\<lparr>files := demo_files\<rparr>) ''/out/plain.txt'' = Some (File [9, 9, 9]) \<and>
   fst (decryptFile demo_crypto demo_env ''/in/plain.txt.enc'' ''/out/plain.txt'' demo_metadata
          \<lparr>dec_password = ''password2''\<rparr> (demo_world\<lparr>files := demo_files\<rparr>))
     = Inl (DecryptionError
              ''Decryption failed: incorrect password or data has been tampered with.''
              WRONG_PASSWORD) \<and>
   files (snd (decryptFile demo_crypto demo_env ''/in/plain.txt.enc'' ''/out/plain.txt''
                 demo_metadata \<lparr>dec_password = ''password2''\<rparr> (demo_world\<lparr>files := demo_files\<rparr>)))
     ''/out/plain.txt'' = None"
proof -
  have pw: "dec_password \<lparr>dec_password = ''password2''\<rparr> \<noteq> []" by simp
  have inp: "files (demo_world\<lparr>files := demo_files\<rparr>) ''/in/plain.txt.enc'' = Some (File [195, 196, 197])"
    by (simp add: demo_files_def)
  have out: "files (demo_world\<lparr>files := demo_files\<rparr>) ''/out/plain.txt'' = Some (File [9, 9, 9])"
    by (simp add: demo_files_def)
  have salt: "fromBase64 (md_salt demo_metadata) \<noteq> []"
    by (simp add: demo_metadata_def demo_decode)
  have k: "pbkdf2 demo_crypto (dec_password \<lparr>dec_password = ''password2''\<rparr>)
      (fromBase64 (md_salt demo_metadata)) PBKDF2_ITERATIONS AES_KEY_LENGTH_BYTES PBKDF2_DIGEST
      = Inr (replicate 32 221)"
    by (simp add: demo_metadata_def demo_decode demo_key2)
  from decryptFile_failure_removes_existing_output
    [OF pw inp out salt k demo_decryptFile_wrong_password]
    out demo_decryptFile_wrong_password
  show ?thesis by blast
qed

text \<open>
  In general a failure of \<open>decryptFile\<close> inside its \<open>try\<close> block leaves no file at
  \<open>outputPath\<close>, and a result is returned only with \<open>verified = true\<close>.
\<close>

lemma cleanup_output_no_file: "\<not> isFile (cleanup_output fs p) p"
  by (cases "fs p") (auto simp: cleanup_output_def existsSync_def unlinkSync_def isFile_def split: node.splits)

lemma decryptFile_failure_no_output_file:
  assumes pw: "dec_password options \<noteq> []"
    and inp: "files w inputPath = Some (File cipherBytes)"
    and salt: "fromBase64 (md_salt metadata) \<noteq> []"
    and k: "pbkdf2 c (dec_password options) (fromBase64 (md_salt metadata)) PBKDF2_ITERATIONS
              AES_KEY_LENGTH_BYTES PBKDF2_DIGEST = Inr k"
    and fail: "fst (decryptFile c env inputPath outputPath metadata options w) = Inl err"
  shows "\<not> isFile (files (snd (decryptFile c env inputPath outputPath metadata options w))) outputPath"
proof -
  define w1 where "w1 = w\<lparr>deriveKey_calls := deriveKey_calls w + 1, key_mem := Some k\<rparr>"
  have dk: "dec_deriveKey c (dec_password options) (fromBase64 (md_salt metadata)) w
      = (Inr \<lparr>dk_key = k, dk_salt = fromBase64 (md_salt metadata), dk_iterations = PBKDF2_ITERATIONS\<rparr>, w1)"
    using pw salt k by (simp add: dec_deriveKey_def Let_def w1_def)
  have pre: "dec_validatePassword (dec_password options) = None" "existsSync (files w) inputPath"
    "isFile (files w) inputPath" "readFileSync (files w) inputPath = Inr cipherBytes"
    using pw inp by (simp_all add: dec_validatePassword_def existsSync_def isFile_def readFileSync_def)
  obtain r fs1 where t: "decryptFile_try c env outputPath metadata k (fromBase64 (md_iv metadata))
      (fromBase64 (md_authTag metadata)) cipherBytes (files w1) = (r, fs1)"
    by (cases "decryptFile_try c env outputPath metadata k (fromBase64 (md_iv metadata))
      (fromBase64 (md_authTag metadata)) cipherBytes (files w1)") auto
  show ?thesis
  proof (cases r)
    case (Inr res)
    with pre dk t fail show ?thesis by (simp add: decryptFile_def Let_def)
  next
    case (Inl e)
    have "\<not> isFile (cleanup_output fs1 outputPath) outputPath"
      by (rule cleanup_output_no_file)
    with pre dk t Inl show ?thesis
      by (simp add: decryptFile_def Let_def wipe_key_def)
  qed
qed

lemma decryptFile_result_verified:
  assumes "fst (decryptFile c env inputPath outputPath metadata options w) = Inr r"
  shows "res_verified r"
  using assms
  by (auto simp: decryptFile_def decryptFile_try_def Let_def split_beta
      split: option.splits if_splits sum.splits prod.splits)

text \<open>
  The \<open>catch\<close> block classifies by the text of the message, and the message of a failed
  \<open>open\<close> carries the path.  Writing to an output path that is a directory named
  \<open>/authors\<close> fails with \<open>EISDIR\<close>; the message contains \<open>auth\<close> and the error is reported
  as \<open>WRONG_PASSWORD\<close>, under the right password.
\<close>

lemma decryptFile_try_write_to_directory:
  "decryptFile_try demo_crypto demo_env ''/authors'' demo_metadata (replicate 32 220)
      [0, 1, 2, 3, 4, 5, 6, 7, 8, 9, 10, 11] (replicate 16 15) [195, 196, 197]
      [''/in/plain.txt.enc'' \<mapsto> File [195, 196, 197], ''/'' \<mapsto> Dir, ''/authors'' \<mapsto> Dir]
   = (Inl (JsError (''EISDIR: illegal operation on a directory, open '' @ quoted ''/authors'')),
      [''/in/plain.txt.enc'' \<mapsto> File [195, 196, 197], ''/'' \<mapsto> Dir, ''/authors'' \<mapsto> Dir])"
  using demo_decrypt123
  by (simp add: decryptFile_try_def GCM_AUTH_TAG_LENGTH_BYTES_def demo_env_def demo_dirname_def
      existsSync_def writeFileSync_def)

lemma classify_path_with_auth:
  "classify (JsError (''EISDIR: illegal operation on a directory, open '' @ quoted ''/authors''))
     = DecryptionError ''Decryption failed: incorrect password or data has been tampered with.''
         WRONG_PASSWORD"
  by (simp add: classify_def error_message_def quoted_def)

lemma decryptFile_write_error_auth_path:
  "fst (decryptFile demo_crypto demo_env ''/in/plain.txt.enc'' ''/authors'' demo_metadata
          \<lparr>dec_password = ''password1''\<rparr>
          (demo_world\<lparr>files := [''/in/plain.txt.enc'' \<mapsto> File [195, 196, 197], ''/'' \<mapsto> Dir,
                                  ''/authors'' \<mapsto> Dir]\<rparr>))
   = Inl (DecryptionError
            ''Decryption failed: incorrect password or data has been tampered with.''
            WRONG_PASSWORD)"
  by (simp add: decryptFile_def dec_validatePassword_def existsSync_def isFile_def
      readFileSync_def demo_metadata_def demo_decode dec_deriveKey_def Let_def
      demo_key1 decryptFile_try_write_to_directory [unfolded demo_metadata_def]
      classify_def error_message_def quoted_def)

section \<open>Streamed decryption: the handlers\<close>

lemma on_read_error_files: "files (st_world (on_read_error msg st)) = files (st_world st)"
  by (simp add: on_read_error_def reject_def wipe_stream_key_def wipe_key_def split: promise.splits)

lemma on_write_error_files: "files (st_world (on_write_error msg st)) = files (st_world st)"
  by (simp add: on_write_error_def reject_def wipe_stream_key_def wipe_key_def split: promise.splits)

lemma on_decipher_error_files:
  "files (st_world st) p = Some (File b) \<Longrightarrow> files (st_world (on_decipher_error p st)) p = None"
  by (simp add: on_decipher_error_def reject_def wipe_stream_key_def wipe_key_def Let_def
      cleanup_output_file split: promise.splits)

lemma on_decipher_error_promise:
  "st_promise st = Pending \<Longrightarrow>
   st_promise (on_decipher_error p st) =
     Rejected (DecryptionError
                 ''Decryption failed: incorrect password or data has been tampered with.''
                 WRONG_PASSWORD)"
  by (simp add: on_decipher_error_def reject_def wipe_stream_key_def Let_def)

text \<open>A settled promise stays as it is; a resolved one carries \<open>verified = true\<close>.\<close>

lemma handle_event_settled:
  "st_promise st \<noteq> Pending \<Longrightarrow>
   st_promise (handle_event env outputPath metadata hasProgress totalBytes ev st) = st_promise st"
  by (cases ev)
     (auto simp: on_data_def on_read_error_def on_write_error_def on_finish_def
        on_decipher_error_def reject_def resolve_def wipe_stream_key_def Let_def
        split: promise.splits option.splits)

lemma run_events_settled:
  "st_promise st \<noteq> Pending \<Longrightarrow>
   st_promise (run_events env outputPath metadata hasProgress totalBytes events st) = st_promise st"
  unfolding run_events_def
  by (induction events arbitrary: st) (simp_all add: handle_event_settled)

text \<open>
  Claim C5 says a failed \<open>decryptFile\<close> or \<open>decryptFileStream\<close> never leaves a partial
  output file.  The handlers of \<open>decryptFileStream\<close> for a read error and for a write
  error reject the promise and leave the output file as it is; only the handler for a
  decipher error deletes it.  Here two bytes of unverified plaintext stay on disk.
\<close>

theorem read_error_leaves_partial_output:
  "st_promise (run_events demo_env ''/out/plain.txt'' demo_metadata False 3
                 [ReadData [195, 196], ReadError ''EIO: i/o error, read''] demo_stream)
     = Rejected (DecryptionError ''Failed to read encrypted file: EIO: i/o error, read'' FILE_ERROR)
   \<and> files (st_world (run_events demo_env ''/out/plain.txt'' demo_metadata False 3
                 [ReadData [195, 196], ReadError ''EIO: i/o error, read''] demo_stream))
       ''/out/plain.txt'' = Some (File [1, 2])
   \<and> st_promise (run_events demo_env ''/out/plain.txt'' demo_metadata False 3
                 [ReadData [195, 196], WriteError ''ENOSPC: no space left on device, write'']
                 demo_stream)
     = Rejected (DecryptionError
                   ''Failed to write decrypted file: ENOSPC: no space left on device, write''
                   FILE_ERROR)
   \<and> files (st_world (run_events demo_env ''/out/plain.txt'' demo_metadata False 3
                 [ReadData [195, 196], WriteError ''ENOSPC: no space left on device, write'']
                 demo_stream))
       ''/out/plain.txt'' = Some (File [1, 2])
   \<and> files (st_world (run_events demo_env ''/out/plain.txt'' demo_metadata False 3
                 [ReadData [195, 196], DecipherError ''Unsupported state or unable to authenticate data'']
                 demo_stream))
       ''/out/plain.txt'' = None"
  by (simp add: run_events_def demo_stream_def initial_stream_def on_data_def on_read_error_def
      on_write_error_def on_decipher_error_def reject_def wipe_stream_key_def wipe_key_def
      cleanup_output_def existsSync_def unlinkSync_def Let_def)

end
